theory Spec2Isabelle
  imports Main "HOL-Library.Word" "HOL-Library.List_Lexorder"
begin

section \<open>JavaScript values\<close>

text \<open>
  A JavaScript string is a sequence of UTF-16 code units. The relational operators on
  strings, and the default comparison of \<^verbatim>\<open>Array.prototype.sort\<close>, compare two
  strings code unit by code unit, a proper prefix being the smaller one: this is the
  lexicographic order of List_Lexorder on lists of 16-bit words.
\<close>

type_synonym jsstring = "16 word list"

definition lit :: "string \<Rightarrow> jsstring" where
  "lit s = map (\<lambda>c. of_nat (of_char c)) s"

text \<open>
  The code points of a string, as the string iterator and \<^verbatim>\<open>codePointAt\<close> read
  them: a high surrogate followed by a low surrogate is one code point above 0xFFFF,
  every other code unit stands for itself.
\<close>

fun codePoints :: "jsstring \<Rightarrow> nat list" where
  "codePoints [] = []"
| "codePoints [u] = [unat u]"
| "codePoints (u # v # rest) =
     (if 0xD800 \<le> u \<and> u \<le> 0xDBFF \<and> 0xDC00 \<le> v \<and> v \<le> 0xDFFF
      then (0x10000 + (unat u - 0xD800) * 0x400 + (unat v - 0xDC00)) # codePoints rest
      else unat u # codePoints (v # rest))"

text \<open>
  The values the plugin builds and hands to the host: tag objects are plain objects,
  kept as the list of their own properties in creation order.
\<close>

datatype jsval =
    JUndefined
  | JBool bool
  | JStr jsstring
  | JObj "(string \<times> jsval) list"

definition own_property :: "jsval \<Rightarrow> string \<Rightarrow> jsval option" where
  "own_property v k = (case v of JObj props \<Rightarrow> map_of props k | _ \<Rightarrow> None)"

definition own_keys :: "jsval \<Rightarrow> string list" where
  "own_keys v = (case v of JObj props \<Rightarrow> map fst props | _ \<Rightarrow> [])"

datatype error = TypeError

section \<open>Objects keyed by arbitrary strings\<close>

text \<open>
  \<^verbatim>\<open>htmlPluginData.assets.chunks\<close> is an object whose keys are chunk names. An object
  lists its own properties with the array indices first, in ascending numeric order,
  and the other keys after them in creation order; \<^verbatim>\<open>Object.values\<close> and
  \<^verbatim>\<open>Object.assign\<close> follow that order. An assignment to the key \<^verbatim>\<open>__proto__\<close>
  replaces the prototype and creates no own property.
\<close>

type_synonym 'v object = "(jsstring \<times> 'v) list"

definition is_digit :: "16 word \<Rightarrow> bool" where
  "is_digit u = (0x30 \<le> u \<and> u \<le> 0x39)"

definition dec_value :: "jsstring \<Rightarrow> nat" where
  "dec_value k = foldl (\<lambda>n u. 10 * n + (unat u - 0x30)) 0 k"

definition is_array_index :: "jsstring \<Rightarrow> bool" where
  "is_array_index k =
     (k \<noteq> [] \<and> list_all is_digit k \<and> (length k = 1 \<or> hd k \<noteq> 0x30) \<and> dec_value k < 2 ^ 32 - 1)"

definition own_properties :: "'v object \<Rightarrow> (jsstring \<times> 'v) list" where
  "own_properties obj =
     sort_key (\<lambda>p. dec_value (fst p)) (filter (\<lambda>p. is_array_index (fst p)) obj)
       @ filter (\<lambda>p. \<not> is_array_index (fst p)) obj"

definition object_values :: "'v object \<Rightarrow> 'v list" where
  "object_values obj = map snd (own_properties obj)"

fun put_property :: "'v object \<Rightarrow> jsstring \<Rightarrow> 'v \<Rightarrow> 'v object" where
  "put_property [] k v = [(k, v)]"
| "put_property (p # ps) k v = (if fst p = k then (k, v) # ps else p # put_property ps k v)"

definition object_set :: "'v object \<Rightarrow> jsstring \<Rightarrow> 'v \<Rightarrow> 'v object" where
  "object_set obj k v = (if k = lit ''__proto__'' then obj else put_property obj k v)"

definition object_assign :: "'v object \<Rightarrow> 'v object \<Rightarrow> 'v object" where
  "object_assign target source =
     foldl (\<lambda>t p. object_set t (fst p) (snd p)) target (own_properties source)"

section \<open>Arrays of file paths in a store\<close>

text \<open>
  \<^verbatim>\<open>chunk.files\<close> is an array object owned by the compilation, and \<^verbatim>\<open>sort\<close> works in
  place. Arrays of strings therefore live in a store and are named by their address;
  a new array takes the next free address. \<^verbatim>\<open>concat\<close>, \<^verbatim>\<open>filter\<close> (defined with
  generateLinks, for its callbacks) and the spread of a set build a new array,
  \<^verbatim>\<open>sort\<close> overwrites the array it is called on and returns it.
\<close>

type_synonym ref = nat
type_synonym heap = "jsstring list list"

definition alloc :: "heap \<Rightarrow> jsstring list \<Rightarrow> ref \<times> heap" where
  "alloc h xs = (length h, h @ [xs])"

definition array_concat :: "heap \<Rightarrow> ref \<Rightarrow> ref \<Rightarrow> ref \<times> heap" where
  "array_concat h a b = alloc h (h ! a @ h ! b)"

definition array_sort :: "heap \<Rightarrow> ref \<Rightarrow> ref \<times> heap" where
  "array_sort h a = (a, h[a := sort (h ! a)])"

text \<open>A \<^verbatim>\<open>Set\<close> keeps its elements in the order of their first insertion.\<close>

definition Set_add :: "'a list \<Rightarrow> 'a \<Rightarrow> 'a list" where
  "Set_add s x = (if x \<in> set s then s else s @ [x])"

definition new_Set :: "'a list \<Rightarrow> 'a list" where
  "new_Set xs = foldl Set_add [] xs"

section \<open>The data of the plugin and of its hosts\<close>

text \<open>
  A pattern of \<^verbatim>\<open>fileWhitelist\<close> or \<^verbatim>\<open>fileBlacklist\<close> is a RegExp object, used
  through \<^verbatim>\<open>regex.test(file)\<close> only. The matching is the engine's: \<open>search S i\<close> is
  the end of the match that the pattern finds in \<open>S\<close> when the search starts at index
  \<open>i\<close>, if it finds one. On a pattern without the global and the sticky flag,
  \<^verbatim>\<open>test\<close> searches from index 0 and leaves the object as it is. On a pattern with
  one of these flags it searches from \<^verbatim>\<open>lastIndex\<close> and writes \<^verbatim>\<open>lastIndex\<close>: the
  end of the match, or 0 when there is no match or \<^verbatim>\<open>lastIndex\<close> lies beyond the
  string. The RegExp objects live in a store of their own and the options name them
  by their address, so that a pattern listed twice is one object.
\<close>

record RegExp =
  search :: "jsstring \<Rightarrow> nat \<Rightarrow> nat option"
  global :: bool
  sticky :: bool
  lastIndex :: nat

type_synonym patterns = "RegExp list"

definition RegExp_test :: "RegExp \<Rightarrow> jsstring \<Rightarrow> bool \<times> RegExp" where
  "RegExp_test regex S =
     (if global regex \<or> sticky regex then
        (if length S < lastIndex regex then (False, regex\<lparr>lastIndex := 0\<rparr>)
         else case search regex S (lastIndex regex) of
                None \<Rightarrow> (False, regex\<lparr>lastIndex := 0\<rparr>)
              | Some e \<Rightarrow> (True, regex\<lparr>lastIndex := e\<rparr>))
      else (search regex S 0 \<noteq> None, regex))"

datatype include_option = IncludeMode jsstring | IncludeNames "jsstring list"

datatype as_policy = AsString jsstring | AsFunction "jsstring \<Rightarrow> jsval"

text \<open>
  The options after the constructor has merged the defaults in. An option that is
  not set is \<open>None\<close>; an empty list is a set option.
\<close>

record options =
  rel :: jsstring
  include_opt :: include_option
  as_opt :: "as_policy option"
  fileWhitelist :: "ref list option"
  fileBlacklist :: "ref list option"
  includeHtmlNames :: "jsstring list option"
  excludeHtmlNames :: "jsstring list option"

record PreloadPlugin =
  options :: options
  resourceHints :: "jsval list option"

record chunk =
  files :: ref

text \<open>A chunk of the statistics \<^verbatim>\<open>compilation.getStats().toJson({ chunks: true })\<close>.\<close>

record stats_chunk =
  stats_files :: "jsstring list"
  stats_names :: "jsstring list"
  stats_idHints :: "jsstring list"
  stats_size :: int
  stats_hash :: jsstring

record compilation =
  outputOptions_publicPath :: "jsstring option"
  compilation_hash :: jsstring
  stats_chunks :: "stats_chunk list"

text \<open>
  An entry of \<^verbatim>\<open>htmlPluginData.assets.chunks\<close>. The before-hook builds an entry
  as an empty object and sets \<^verbatim>\<open>size\<close>, \<^verbatim>\<open>entry\<close> and \<^verbatim>\<open>hash\<close> only when the
  chunk has a script, so these three fields are optional.
\<close>

record chunk_info =
  info_size :: "int option"
  info_entry :: "jsstring option"
  info_hash :: "jsstring option"
  info_css :: "jsstring list"

text \<open>
  The document descriptor that the host hands to both hooks, with the nested objects
  flattened: \<^verbatim>\<open>plugin.version\<close> (undefined before version 4 of the host),
  \<^verbatim>\<open>plugin.options.filename\<close>, \<^verbatim>\<open>plugin.options.hash\<close> read as a truth value,
  \<^verbatim>\<open>assets.js\<close>, \<^verbatim>\<open>assets.css\<close>, \<^verbatim>\<open>assets.chunks\<close> (undefined from version 4
  on until the before-hook sets it), and the list of head tags, which is
  \<^verbatim>\<open>headTags\<close> from version 4 on and \<^verbatim>\<open>head\<close> before.
\<close>

record htmlPluginData =
  plugin_version :: "int option"
  plugin_options_filename :: jsstring
  plugin_options_hash :: bool
  assets_js :: "jsstring list"
  assets_css :: "jsstring list"
  assets_chunks :: "chunk_info object option"
  headTags :: "jsval list"
  head :: "jsval list"

text \<open>
  The helpers of \<^verbatim>\<open>./lib\<close> are not among the sources, so \<^verbatim>\<open>generateLinks\<close> takes
  them as parameters: they read the store, the compilation and their arguments and
  return a value. The file list of a chunk they hand over is an array of the store
  they were given. A chunk, and the compilation, may carry more fields than the ones
  read here.
\<close>

record ('c, 'ch) lib =
  extractChunks :: "heap \<Rightarrow> 'c compilation_scheme \<Rightarrow> include_option \<Rightarrow> 'ch chunk_scheme list"
  doesChunkBelongToHTML ::
    "heap \<Rightarrow> 'ch chunk_scheme \<Rightarrow> 'c compilation_scheme \<Rightarrow> chunk_info list \<Rightarrow> bool"
  determineAsValue :: "jsstring \<Rightarrow> jsstring \<Rightarrow> as_policy option \<Rightarrow> jsval"

section \<open>generateLinks\<close>

text \<open>\<^verbatim>\<open>compilation.outputOptions.publicPath || ''\<close>, in generateLinks and in buildReducer.\<close>

definition publicPath :: "'c compilation_scheme \<Rightarrow> jsstring" where
  "publicPath compilation =
     (case outputOptions_publicPath compilation of None \<Rightarrow> [] | Some p \<Rightarrow> p)"


text \<open>
  The chunks of this document. The callback of \<^verbatim>\<open>filter\<close> reads
  \<^verbatim>\<open>Object.values(htmlPluginData.assets.chunks)\<close>, which throws a TypeError when the
  object is undefined; the callback runs once for each extracted chunk.
\<close>

definition htmlChunks ::
  "('c, 'ch) lib \<Rightarrow> options \<Rightarrow> 'c compilation_scheme \<Rightarrow> htmlPluginData \<Rightarrow> heap
     \<Rightarrow> error + 'ch chunk_scheme list" where
  "htmlChunks l opts compilation data h =
     (let extractedChunks = extractChunks l h compilation (include_opt opts) in
      if include_opt opts = IncludeMode (lit ''allAssets'') then Inr extractedChunks
      else if extractedChunks = [] then Inr []
      else case assets_chunks data of
             None \<Rightarrow> Inl TypeError
           | Some chunks \<Rightarrow>
               Inr (filter (\<lambda>chunk. doesChunkBelongToHTML l h chunk compilation
                                      (object_values chunks)) extractedChunks))"

text \<open>\<^verbatim>\<open>htmlChunks.reduce((accumulated, chunk) => accumulated.concat(chunk.files), [])\<close>\<close>

fun allFiles :: "'ch chunk_scheme list \<Rightarrow> ref \<Rightarrow> heap \<Rightarrow> ref \<times> heap" where
  "allFiles [] accumulated h = (accumulated, h)"
| "allFiles (chunk # rest) accumulated h =
     (case array_concat h accumulated (files chunk) of
        (accumulated', h') \<Rightarrow> allFiles rest accumulated' h')"

text \<open>
  \<^verbatim>\<open>list.some(regex => regex.test(file))\<close> and
  \<^verbatim>\<open>list.every(regex => !regex.test(file))\<close>: both stop at the first pattern whose
  test succeeds, and every call of \<^verbatim>\<open>test\<close> may write to its pattern.
\<close>

fun some_test :: "ref list \<Rightarrow> jsstring \<Rightarrow> patterns \<Rightarrow> bool \<times> patterns" where
  "some_test [] file rs = (False, rs)"
| "some_test (r # rest) file rs =
     (case RegExp_test (rs ! r) file of
        (found, regex') \<Rightarrow>
          if found then (True, rs[r := regex']) else some_test rest file (rs[r := regex']))"

fun every_not_test :: "ref list \<Rightarrow> jsstring \<Rightarrow> patterns \<Rightarrow> bool \<times> patterns" where
  "every_not_test [] file rs = (True, rs)"
| "every_not_test (r # rest) file rs =
     (case RegExp_test (rs ! r) file of
        (found, regex') \<Rightarrow>
          if found then (False, rs[r := regex']) else every_not_test rest file (rs[r := regex']))"

definition whitelisted :: "options \<Rightarrow> jsstring \<Rightarrow> patterns \<Rightarrow> bool \<times> patterns" where
  "whitelisted opts file rs =
     (case fileWhitelist opts of None \<Rightarrow> (True, rs) | Some list \<Rightarrow> some_test list file rs)"

definition not_blacklisted :: "options \<Rightarrow> jsstring \<Rightarrow> patterns \<Rightarrow> bool \<times> patterns" where
  "not_blacklisted opts file rs =
     (case fileBlacklist opts of None \<Rightarrow> (True, rs) | Some list \<Rightarrow> every_not_test list file rs)"

text \<open>
  \<^verbatim>\<open>filter\<close> calls its callback on the elements in order and builds a new array of
  those it keeps; the callbacks here write to the patterns.
\<close>

fun filter_files ::
  "(jsstring \<Rightarrow> patterns \<Rightarrow> bool \<times> patterns) \<Rightarrow> jsstring list \<Rightarrow> patterns
     \<Rightarrow> jsstring list \<times> patterns" where
  "filter_files p [] rs = ([], rs)"
| "filter_files p (file # rest) rs =
     (case p file rs of
        (keep, rs') \<Rightarrow>
          case filter_files p rest rs' of
            (kept, rs'') \<Rightarrow> (if keep then file # kept else kept, rs''))"

definition array_filter ::
  "(jsstring \<Rightarrow> patterns \<Rightarrow> bool \<times> patterns) \<Rightarrow> heap \<Rightarrow> ref \<Rightarrow> patterns
     \<Rightarrow> ref \<times> heap \<times> patterns" where
  "array_filter p h a rs =
     (case filter_files p (h ! a) rs of
        (kept, rs') \<Rightarrow> case alloc h kept of (b, h') \<Rightarrow> (b, h', rs'))"

definition attributes :: "('c, 'ch) lib \<Rightarrow> options \<Rightarrow> jsstring \<Rightarrow> jsstring \<Rightarrow> (string \<times> jsval) list" where
  "attributes l opts href file =
     (let attrs = [(''href'', JStr href), (''rel'', JStr (rel opts))] in
      if rel opts = lit ''preload'' then
        (let as = determineAsValue l href file (as_opt opts);
             attrs = attrs @ [(''as'', as)]
         in if as = JStr (lit ''font'') then attrs @ [(''crossorigin'', JStr [])] else attrs)
      else attrs)"

definition link :: "('c, 'ch) lib \<Rightarrow> options \<Rightarrow> jsstring \<Rightarrow> jsstring \<Rightarrow> jsval" where
  "link l opts path file =
     (let href = path @ file in
      JObj [(''tagName'', JStr (lit ''link'')),
            (''attributes'', JObj (attributes l opts href file)),
            (''voidTag'', JBool True)])"

text \<open>The loop over the sorted files, pushing one descriptor for each.\<close>

fun push_links ::
  "('c, 'ch) lib \<Rightarrow> options \<Rightarrow> jsstring \<Rightarrow> jsstring list \<Rightarrow> jsval list \<Rightarrow> jsval list" where
  "push_links l opts path [] links = links"
| "push_links l opts path (file # rest) links =
     push_links l opts path rest (links @ [link l opts path file])"

definition generateLinks ::
  "('c, 'ch) lib \<Rightarrow> PreloadPlugin \<Rightarrow> 'c compilation_scheme \<Rightarrow> htmlPluginData \<Rightarrow> heap
     \<Rightarrow> patterns \<Rightarrow> error + (PreloadPlugin \<times> htmlPluginData \<times> heap \<times> patterns)" where
  "generateLinks l this compilation data h rs =
     (let opts = options this in
      case htmlChunks l opts compilation data h of
        Inl e \<Rightarrow> Inl e
      | Inr chunks \<Rightarrow>
          (case alloc h [] of (initial, h0) \<Rightarrow>
           case allFiles chunks initial h0 of (flat, h1) \<Rightarrow>
           let uniqueFiles = new_Set (h1 ! flat) in
           case alloc h1 uniqueFiles of (spread, h2) \<Rightarrow>
           case array_filter (whitelisted opts) h2 spread rs of (kept, h3, rs1) \<Rightarrow>
           case array_filter (not_blacklisted opts) h3 kept rs1 of (filteredFiles, h4, rs2) \<Rightarrow>
           case array_sort h4 filteredFiles of (sortedFilteredFiles, h5) \<Rightarrow>
           let links = push_links l opts (publicPath compilation) (h5 ! sortedFilteredFiles) []
           in Inr (this\<lparr>resourceHints := Some links\<rparr>, data, h5, rs2)))"

section \<open>The hooks of apply\<close>

text \<open>
  \<^verbatim>\<open>apply\<close> registers the same two callbacks with either generation of the host,
  under the hook names of that generation. A callback changes the document in place,
  so the model returns the document after the call, also where the callback returns
  nothing.
\<close>

definition skip :: "PreloadPlugin \<Rightarrow> htmlPluginData \<Rightarrow> bool" where
  "skip this data =
     (let htmlFilename = plugin_options_filename data;
          exclude = excludeHtmlNames (options this);
          include = includeHtmlNames (options this)
      in (case include of None \<Rightarrow> False | Some names \<Rightarrow> htmlFilename \<notin> set names)
         \<or> (case exclude of None \<Rightarrow> False | Some names \<Rightarrow> htmlFilename \<in> set names))"

definition appendHash :: "jsstring \<Rightarrow> jsstring \<Rightarrow> jsstring" where
  "appendHash url hash =
     (if url = [] then url
      else url @ (if 0x3F \<notin> set url then lit ''?'' else lit ''&'') @ hash)"

text \<open>
  The tests \<^verbatim>\<open>/.js($|\?)/\<close> and \<^verbatim>\<open>/.css($|\?)/\<close>: somewhere in the string, one code
  unit that is no line terminator, then the extension, then the end of the string or
  a question mark.
\<close>

definition is_line_terminator :: "16 word \<Rightarrow> bool" where
  "is_line_terminator u = (u = 0x0A \<or> u = 0x0D \<or> u = 0x2028 \<or> u = 0x2029)"

fun match_here :: "jsstring \<Rightarrow> jsstring \<Rightarrow> bool" where
  "match_here ext [] = False"
| "match_here ext (c # s) =
     (\<not> is_line_terminator c \<and> take (length ext) s = ext \<and>
      (case drop (length ext) s of [] \<Rightarrow> True | q # _ \<Rightarrow> q = 0x3F))"

fun regex_test :: "jsstring \<Rightarrow> jsstring \<Rightarrow> bool" where
  "regex_test ext [] = False"
| "regex_test ext (c # s) = (match_here ext (c # s) \<or> regex_test ext s)"

text \<open>
  \<^verbatim>\<open>chunk.names[0] || chunk.idHints[0]\<close>, read as a property key: an empty name is
  falsy, and a name that is undefined gives the key \<^verbatim>\<open>undefined\<close>.
\<close>

definition chunkName :: "stats_chunk \<Rightarrow> jsstring" where
  "chunkName chunk =
     (let idHint = (case stats_idHints chunk of [] \<Rightarrow> lit ''undefined'' | i # _ \<Rightarrow> i) in
      case stats_names chunk of
        [] \<Rightarrow> idHint
      | n # _ \<Rightarrow> if n \<noteq> [] then n else idHint)"

definition buildReducer ::
  "'c compilation_scheme \<Rightarrow> htmlPluginData \<Rightarrow> chunk_info object \<Rightarrow> stats_chunk
     \<Rightarrow> chunk_info object" where
  "buildReducer compilation data chunks' chunk =
     (let chunkFiles = map (\<lambda>chunkFile. publicPath compilation @ chunkFile) (stats_files chunk)
      in if list_ex (\<lambda>file. file \<in> set (assets_js data) \<or> file \<in> set (assets_css data))
              chunkFiles
         then
           (let chunkFiles =
                  (if plugin_options_hash data
                   then map (\<lambda>chunkFile. appendHash chunkFile (compilation_hash compilation))
                          chunkFiles
                   else chunkFiles);
                js = find (regex_test (lit ''js'')) chunkFiles;
                css = filter (regex_test (lit ''css'')) chunkFiles
            in object_set chunks' (chunkName chunk)
                 \<lparr>info_size = (if js = None then None else Some (stats_size chunk)),
                  info_entry = js,
                  info_hash = (if js = None then None else Some (stats_hash chunk)),
                  info_css = css\<rparr>)
         else chunks')"

definition beforeHook ::
  "('c, 'ch) lib \<Rightarrow> PreloadPlugin \<Rightarrow> 'c compilation_scheme \<Rightarrow> htmlPluginData \<Rightarrow> heap
     \<Rightarrow> patterns \<Rightarrow> error + (PreloadPlugin \<times> htmlPluginData \<times> heap \<times> patterns)" where
  "beforeHook l this compilation htmlPluginData h rs =
     (let data =
            (if (case plugin_version htmlPluginData of None \<Rightarrow> False | Some v \<Rightarrow> v \<ge> 4)
             then htmlPluginData\<lparr>assets_chunks :=
                    Some (object_assign
                            (case assets_chunks htmlPluginData of None \<Rightarrow> [] | Some cs \<Rightarrow> cs)
                            (foldl (buildReducer compilation htmlPluginData) []
                               (stats_chunks compilation)))\<rparr>
             else htmlPluginData)
      in if skip this data then Inr (this, data, h, rs)
         else generateLinks l this compilation data h rs)"

definition afterHook :: "PreloadPlugin \<Rightarrow> htmlPluginData \<Rightarrow> htmlPluginData" where
  "afterHook this htmlPluginData =
     (if skip this htmlPluginData then htmlPluginData
      else case resourceHints this of
             None \<Rightarrow> htmlPluginData
           | Some hints \<Rightarrow>
               if (case plugin_version htmlPluginData of None \<Rightarrow> False | Some v \<Rightarrow> v \<ge> 4)
               then htmlPluginData\<lparr>headTags := hints @ headTags htmlPluginData\<rparr>
               else htmlPluginData\<lparr>head := hints @ head htmlPluginData\<rparr>)"

section \<open>Reading a descriptor\<close>

definition attribute :: "jsval \<Rightarrow> string \<Rightarrow> jsval option" where
  "attribute tag k =
     (case own_property tag ''attributes'' of None \<Rightarrow> None | Some a \<Rightarrow> own_property a k)"

definition attribute_names :: "jsval \<Rightarrow> string list" where
  "attribute_names tag =
     (case own_property tag ''attributes'' of None \<Rightarrow> [] | Some a \<Rightarrow> own_keys a)"

section \<open>A compilation to run the plugin on\<close>

definition ends_with :: "jsstring \<Rightarrow> jsstring \<Rightarrow> bool" where
  "ends_with s ext = (length ext \<le> length s \<and> drop (length s - length ext) s = ext)"

text \<open>
  Modelled from the spec: \<^verbatim>\<open>lib/determine-as-value\<close> is not among the sources. A
  fixed string or a function of the href when the option is set; by default the
  extension of the file decides: style for .css, script for .js, font for .woff,
  .woff2, .ttf and .eot, image for an image extension, and no value otherwise.
\<close>

definition defaultAsValue :: "jsstring \<Rightarrow> jsstring \<Rightarrow> as_policy option \<Rightarrow> jsval" where
  "defaultAsValue href file optionsAs =
     (case optionsAs of
        Some (AsString s) \<Rightarrow> JStr s
      | Some (AsFunction f) \<Rightarrow> f href
      | None \<Rightarrow>
          if ends_with file (lit ''.css'') then JStr (lit ''style'')
          else if ends_with file (lit ''.js'') then JStr (lit ''script'')
          else if list_ex (ends_with file) [lit ''.woff'', lit ''.woff2'', lit ''.ttf'', lit ''.eot'']
          then JStr (lit ''font'')
          else if list_ex (ends_with file) [lit ''.png'', lit ''.jpg'', lit ''.gif'', lit ''.svg'']
          then JStr (lit ''image'')
          else JUndefined)"

text \<open>
  Two chunks that share a file. The helpers of the example hand over every chunk of
  the compilation and keep a chunk for a document when one of its files is an entry
  or a style sheet of the document. The document is built by version 4 of the host,
  with the option that appends the hash, from the script of the chunk main.
\<close>

definition ex_lib :: "(unit, unit) lib" where
  "ex_lib =
     \<lparr>extractChunks = (\<lambda>h compilation mode. [\<lparr>files = 0\<rparr>, \<lparr>files = 1\<rparr>]),
      doesChunkBelongToHTML = (\<lambda>h chunk compilation infos.
         list_ex (\<lambda>file. list_ex (\<lambda>i. info_entry i = Some file \<or> file \<in> set (info_css i)) infos)
           (h ! files chunk)),
      determineAsValue = defaultAsValue\<rparr>"

definition ex_heap :: heap where
  "ex_heap =
     [[lit ''shared.js'', lit ''main.js''],
      [lit ''font.woff2'', lit ''shared.js'', lit ''app.css'']]"

definition ex_options :: options where
  "ex_options =
     \<lparr>rel = lit ''preload'', include_opt = IncludeMode (lit ''allAssets''), as_opt = None,
      fileWhitelist = None, fileBlacklist = None,
      includeHtmlNames = None, excludeHtmlNames = Some []\<rparr>"

definition ex_plugin :: PreloadPlugin where
  "ex_plugin = \<lparr>options = ex_options, resourceHints = None\<rparr>"

definition ex_compilation :: compilation where
  "ex_compilation =
     \<lparr>outputOptions_publicPath = Some (lit ''/static/''),
      compilation_hash = lit ''a1b2'',
      stats_chunks =
        [\<lparr>stats_files = [lit ''main.js'', lit ''main.css''], stats_names = [lit ''main''],
          stats_idHints = [], stats_size = 10, stats_hash = lit ''c3d4''\<rparr>,
         \<lparr>stats_files = [lit ''other.js''], stats_names = [], stats_idHints = [],
          stats_size = 7, stats_hash = lit ''e5f6''\<rparr>]\<rparr>"

definition ex_data :: htmlPluginData where
  "ex_data =
     \<lparr>plugin_version = Some 4, plugin_options_filename = lit ''index.html'',
      plugin_options_hash = True, assets_js = [lit ''/static/main.js''], assets_css = [],
      assets_chunks = None,
      headTags = [JObj [(''tagName'', JStr (lit ''title''))]], head = []\<rparr>"

definition ex_prefetch :: PreloadPlugin where
  "ex_prefetch = \<lparr>options = ex_options\<lparr>rel := lit ''prefetch''\<rparr>, resourceHints = None\<rparr>"

text \<open>A plugin that excludes the document, and one that has hints pending.\<close>

definition ex_excluding :: PreloadPlugin where
  "ex_excluding =
     \<lparr>options = ex_options\<lparr>excludeHtmlNames := Some [lit ''index.html'']\<rparr>,
      resourceHints = Some [JObj [(''tagName'', JStr (lit ''link''))]]\<rparr>"

definition ex_pending :: PreloadPlugin where
  "ex_pending =
     \<lparr>options = ex_options,
      resourceHints = Some [JObj [(''tagName'', JStr (lit ''link'')), (''voidTag'', JBool True)]]\<rparr>"

text \<open>
  A plugin for the chunks of the document only, with a document of an older host
  that lists its entry; a store whose two file names differ in a character outside
  the Basic Multilingual Plane.
\<close>

definition ex_async :: PreloadPlugin where
  "ex_async =
     \<lparr>options = ex_options\<lparr>include_opt := IncludeMode (lit ''asyncChunks'')\<rparr>,
      resourceHints = None\<rparr>"

definition ex_async_data :: htmlPluginData where
  "ex_async_data =
     ex_data\<lparr>plugin_version := None,
             assets_chunks := Some [(lit ''main'',
               \<lparr>info_size = Some 10, info_entry = Some (lit ''main.js''),
                info_hash = Some (lit ''c3d4''), info_css = []\<rparr>)]\<rparr>"

definition ex_astral_heap :: heap where
  "ex_astral_heap = [[[0xFF5E] @ lit ''.js''], [[0xD83D, 0xDE00] @ lit ''.js'']]"

text \<open>
  The pattern that matches a given suffix at the end of the string, as
  \<^verbatim>\<open>/\.js$/\<close> does, and the pattern that matches a given prefix at the start of
  the string, as \<^verbatim>\<open>/^shared/\<close> does, each with or without the global flag. The search
  of the first from an index succeeds when the suffix starts at or after the index;
  the search of the second succeeds from index 0 only.
\<close>

definition suffix_pattern :: "jsstring \<Rightarrow> bool \<Rightarrow> RegExp" where
  "suffix_pattern ext g =
     \<lparr>search = (\<lambda>S i. if i + length ext \<le> length S \<and> ends_with S ext
                       then Some (length S) else None),
      global = g, sticky = False, lastIndex = 0\<rparr>"

definition prefix_pattern :: "jsstring \<Rightarrow> bool \<Rightarrow> RegExp" where
  "prefix_pattern pre g =
     \<lparr>search = (\<lambda>S i. if i = 0 \<and> take (length pre) S = pre then Some (length pre) else None),
      global = g, sticky = False, lastIndex = 0\<rparr>"

text \<open>
  The patterns \<^verbatim>\<open>/\.js$/\<close>, \<^verbatim>\<open>/\.css$/\<close> and \<^verbatim>\<open>/^shared/\<close>, and a plugin with
  the first two in its whitelist and the third in its blacklist.
\<close>

definition ex_patterns :: patterns where
  "ex_patterns =
     [suffix_pattern (lit ''.js'') False, suffix_pattern (lit ''.css'') False,
      prefix_pattern (lit ''shared'') False]"

definition ex_filtering :: PreloadPlugin where
  "ex_filtering =
     \<lparr>options = ex_options\<lparr>fileWhitelist := Some [0, 1], fileBlacklist := Some [2]\<rparr>,
      resourceHints = None\<rparr>"

text \<open>
  The patterns \<^verbatim>\<open>/\.js$/\<close> and \<^verbatim>\<open>/^shared/g\<close> as whitelist and blacklist, on
  chunks with the files main.js, shared.js and shared2.js.
\<close>

definition ex_global_patterns :: patterns where
  "ex_global_patterns =
     [suffix_pattern (lit ''.js'') False, prefix_pattern (lit ''shared'') True]"

definition ex_global_blacklist :: PreloadPlugin where
  "ex_global_blacklist =
     \<lparr>options = ex_options\<lparr>fileWhitelist := Some [0], fileBlacklist := Some [1]\<rparr>,
      resourceHints = None\<rparr>"

definition ex_shared_heap :: heap where
  "ex_shared_heap = [[lit ''main.js'', lit ''shared.js''], [lit ''shared.js'', lit ''shared2.js'']]"

text \<open>
  The pattern \<^verbatim>\<open>/\.js$/g\<close> as the whitelist, on chunks with the files a.js, b.js
  and c.js.
\<close>

definition ex_global_whitelist_patterns :: patterns where
  "ex_global_whitelist_patterns = [suffix_pattern (lit ''.js'') True]"

definition ex_global_whitelist :: PreloadPlugin where
  "ex_global_whitelist =
     \<lparr>options = ex_options\<lparr>fileWhitelist := Some [0]\<rparr>, resourceHints = None\<rparr>"

definition ex_abc_heap :: heap where
  "ex_abc_heap = [[lit ''a.js'', lit ''b.js''], [lit ''b.js'', lit ''c.js'']]"

section \<open>The array operations and the store\<close>

lemma push_links_eq: "push_links l opts pp fs acc = acc @ map (link l opts pp) fs"
  by (induction fs arbitrary: acc) auto


text \<open>
  When every chunk's file list is an array of the store, the reduction ends with the
  file lists of the chunks one after the other.
\<close>

lemma allFiles_content:
  assumes "acc < length h" and "\<forall>chunk\<in>set chunks. files chunk < length h"
  shows "fst (allFiles chunks acc h) < length (snd (allFiles chunks acc h)) \<and>
         snd (allFiles chunks acc h) ! fst (allFiles chunks acc h) =
           h ! acc @ concat (map (\<lambda>chunk. h ! files chunk) chunks)"
  using assms
proof (induction chunks arbitrary: acc h)
  case Nil
  then show ?case by simp
next
  case (Cons chunk rest)
  let ?h = "h @ [h ! acc @ h ! files chunk]"
  have valid: "\<forall>c\<in>set rest. files c < length ?h"
    using Cons.prems by auto
  have same: "map (\<lambda>c. ?h ! files c) rest = map (\<lambda>c. h ! files c) rest"
    using Cons.prems by (auto simp: nth_append)
  have "length h < length ?h" by simp
  from Cons.IH [OF this valid] same show ?case
    by (simp add: array_concat_def alloc_def)
qed

lemma allFiles_start:
  assumes "\<forall>chunk\<in>set chunks. files chunk < length h"
    and "allFiles chunks (length h) (h @ [[]]) = (flat, h1)"
  shows "h1 ! flat = concat (map (\<lambda>chunk. h ! files chunk) chunks)"
proof -
  have valid: "\<forall>chunk\<in>set chunks. files chunk < length (h @ [[]])"
    using assms(1) by auto
  have same: "map (\<lambda>c. (h @ [[]]) ! files c) chunks = map (\<lambda>c. h ! files c) chunks"
    using assms(1) by (auto simp: nth_append)
  have "length h < length (h @ [[]])" by simp
  from allFiles_content [OF this valid] assms(2) same show ?thesis
    by simp
qed

text \<open>A set holds each element once, whatever the order of insertion.\<close>

lemma foldl_Set_add:
  "distinct acc \<Longrightarrow>
     distinct (foldl Set_add acc xs) \<and> set (foldl Set_add acc xs) = set acc \<union> set xs"
  by (induction xs arbitrary: acc) (auto simp: Set_add_def)

lemma new_Set_distinct: "distinct (new_Set xs)"
  using foldl_Set_add [of "[]" xs] by (simp add: new_Set_def)

lemma new_Set_set: "set (new_Set xs) = set xs"
  using foldl_Set_add [of "[]" xs] by (simp add: new_Set_def)

lemma sort_new_Set: "sort (new_Set xs) = sorted_list_of_set (set xs)"
proof (rule sorted_distinct_set_unique)
  show "distinct (sort (new_Set xs))" by (simp add: new_Set_distinct)
qed (simp_all add: new_Set_set)

lemma distinct_filter_eq_length:
  "distinct xs \<Longrightarrow> p \<in> set xs \<Longrightarrow> length (filter (\<lambda>f. f = p) xs) = 1"
  by (induction xs) (auto simp: filter_empty_conv)

text \<open>
  Between strings without a high surrogate the order of the code units is the order
  of the code points.
\<close>

lemma codePoints_no_high_surrogate:
  "\<forall>u\<in>set s. \<not> (0xD800 \<le> u \<and> u \<le> 0xDBFF) \<Longrightarrow> codePoints s = map unat s"
  by (induction s rule: codePoints.induct) auto

lemma map_unat_le:
  fixes xs ys :: jsstring
  shows "xs \<le> ys \<Longrightarrow> map unat xs \<le> map unat ys"
proof (induction xs arbitrary: ys)
  case Nil
  then show ?case by simp
next
  case (Cons x xs)
  then show ?case
    by (cases ys) (auto simp: word_less_nat_alt)
qed

lemma sorted_codePoints:
  assumes "sorted paths"
    and "\<forall>p\<in>set paths. \<forall>u\<in>set p. \<not> (0xD800 \<le> u \<and> u \<le> 0xDBFF)"
  shows "sorted (map codePoints paths)"
proof -
  have "map codePoints paths = map (map unat) paths"
    using assms(2) by (intro map_cong refl codePoints_no_high_surrogate) blast
  moreover have "sorted (map (map unat) paths)"
    using assms(1) by (induction paths) (auto simp: map_unat_le)
  ultimately show ?thesis by (simp only:)
qed

section \<open>The patterns and the filters\<close>

text \<open>A test on a pattern without the two flags is a search from 0 and writes nothing.\<close>

lemma RegExp_test_unflagged:
  "\<not> global regex \<Longrightarrow> \<not> sticky regex \<Longrightarrow>
     RegExp_test regex S = (search regex S 0 \<noteq> None, regex)"
  by (simp add: RegExp_test_def)

text \<open>A test writes to \<^verbatim>\<open>lastIndex\<close> only.\<close>

lemma RegExp_test_pattern:
  "snd (RegExp_test regex S)\<lparr>lastIndex := 0\<rparr> = regex\<lparr>lastIndex := 0\<rparr>"
  by (simp add: RegExp_test_def split: option.split)

lemma filter_files_all: "filter_files (\<lambda>file rs. (True, rs)) xs rs = (xs, rs)"
  by (induction xs) auto

text \<open>
  A filter keeps what a predicate \<open>q\<close> keeps, as long as its callback decides as
  \<open>q\<close> does on the states that an invariant describes and keeps the invariant. A
  callback that keeps an invariant leaves it to the filter after it.
\<close>

lemma filter_files_invariant:
  assumes "I rs" and "\<And>x s. I s \<Longrightarrow> I (snd (p x s))"
  shows "I (snd (filter_files p xs rs))"
  using assms(1)
proof (induction xs arbitrary: rs)
  case Nil
  then show ?case by simp
next
  case (Cons x xs)
  from Cons.prems have "I (snd (p x rs))" by (rule assms(2))
  from Cons.IH [OF this] show ?case
    by (simp add: case_prod_beta)
qed

lemma filter_files_pure:
  assumes "I rs" and "\<And>x s. I s \<Longrightarrow> I (snd (p x s)) \<and> fst (p x s) = q x"
  shows "fst (filter_files p xs rs) = filter q xs"
  using assms(1)
proof (induction xs arbitrary: rs)
  case Nil
  then show ?case by simp
next
  case (Cons x xs)
  from Cons.prems assms(2) have "I (snd (p x rs))" and "fst (p x rs) = q x" by blast+
  with Cons.IH [of "snd (p x rs)"] show ?case
    by (simp add: case_prod_beta)
qed

section \<open>What generateLinks computes\<close>

text \<open>
  The result of generateLinks, from the chunks selected, the array the reduction
  ends with, and what the two filters keep and leave in the patterns.
\<close>

lemma generateLinks_unfold:
  assumes "htmlChunks l (options this) compilation data h = Inr chunks"
    and "allFiles chunks (length h) (h @ [[]]) = (flat, h1)"
    and "filter_files (whitelisted (options this)) (new_Set (h1 ! flat)) rs = (kept, rs1)"
    and "filter_files (not_blacklisted (options this)) kept rs1 = (filtered, rs2)"
  shows "generateLinks l this compilation data h rs =
     Inr (this\<lparr>resourceHints := Some (map (link l (options this) (publicPath compilation))
              (sort filtered))\<rparr>,
          data,
          h1 @ [new_Set (h1 ! flat), kept, sort filtered],
          rs2)"
  using assms
  by (simp add: generateLinks_def alloc_def array_filter_def array_sort_def Let_def
      nth_append push_links_eq list_update_append)

lemma generateLinks_Inr:
  assumes "generateLinks l this compilation data h rs = Inr r"
  obtains chunks flat h1 kept rs1 filtered rs2 where
    "htmlChunks l (options this) compilation data h = Inr chunks"
    "allFiles chunks (length h) (h @ [[]]) = (flat, h1)"
    "filter_files (whitelisted (options this)) (new_Set (h1 ! flat)) rs = (kept, rs1)"
    "filter_files (not_blacklisted (options this)) kept rs1 = (filtered, rs2)"
proof (cases "htmlChunks l (options this) compilation data h")
  case (Inl e)
  with assms show ?thesis by (simp add: generateLinks_def)
next
  case (Inr chunks)
  obtain flat h1 where a: "allFiles chunks (length h) (h @ [[]]) = (flat, h1)"
    by (cases "allFiles chunks (length h) (h @ [[]])")
  obtain kept rs1 where
    w: "filter_files (whitelisted (options this)) (new_Set (h1 ! flat)) rs = (kept, rs1)"
    by (cases "filter_files (whitelisted (options this)) (new_Set (h1 ! flat)) rs")
  obtain filtered rs2 where
    b: "filter_files (not_blacklisted (options this)) kept rs1 = (filtered, rs2)"
    by (cases "filter_files (not_blacklisted (options this)) kept rs1")
  from that [OF Inr a w b] show ?thesis .
qed

lemma generateLinks_Inl:
  "htmlChunks l (options this) compilation data h = Inl e \<Longrightarrow>
     generateLinks l this compilation data h rs = Inl e"
  by (simp add: generateLinks_def)

text \<open>
  generateLinks returns in the mode \<^verbatim>\<open>allAssets\<close>, and in the other modes when the
  document has its \<^verbatim>\<open>assets.chunks\<close>.
\<close>

lemma generateLinks_returns:
  assumes "include_opt (options this) = IncludeMode (lit ''allAssets'') \<or> assets_chunks data \<noteq> None"
  shows "\<exists>r. generateLinks l this compilation data h rs = Inr r"
proof -
  from assms have "\<exists>chunks. htmlChunks l (options this) compilation data h = Inr chunks"
    by (auto simp: htmlChunks_def Let_def)
  then obtain chunks where
    c: "htmlChunks l (options this) compilation data h = Inr chunks" ..
  obtain flat h1 where a: "allFiles chunks (length h) (h @ [[]]) = (flat, h1)"
    by (cases "allFiles chunks (length h) (h @ [[]])")
  obtain kept rs1 where
    w: "filter_files (whitelisted (options this)) (new_Set (h1 ! flat)) rs = (kept, rs1)"
    by (cases "filter_files (whitelisted (options this)) (new_Set (h1 ! flat)) rs")
  obtain filtered rs2 where
    b: "filter_files (not_blacklisted (options this)) kept rs1 = (filtered, rs2)"
    by (cases "filter_files (not_blacklisted (options this)) kept rs1")
  from generateLinks_unfold [OF c a w b] show ?thesis by blast
qed

lemma generateLinks_links:
  assumes "generateLinks l this compilation data h rs = Inr (this', data', h', rs')"
  shows "\<exists>fs. resourceHints this' = Some (map (link l (options this) (publicPath compilation)) fs)"
proof -
  from assms obtain chunks flat h1 kept rs1 filtered rs2 where
    "htmlChunks l (options this) compilation data h = Inr chunks"
    "allFiles chunks (length h) (h @ [[]]) = (flat, h1)"
    "filter_files (whitelisted (options this)) (new_Set (h1 ! flat)) rs = (kept, rs1)"
    "filter_files (not_blacklisted (options this)) kept rs1 = (filtered, rs2)"
    by (rule generateLinks_Inr)
  from generateLinks_unfold [OF this] assms show ?thesis by auto
qed

lemma generateLinks_result:
  assumes "htmlChunks l (options this) compilation data h = Inr chunks"
    and "\<forall>chunk\<in>set chunks. files chunk < length h"
    and "filter_files (whitelisted (options this))
           (new_Set (concat (map (\<lambda>chunk. h ! files chunk) chunks))) rs = (kept, rs1)"
    and "filter_files (not_blacklisted (options this)) kept rs1 = (filtered, rs2)"
  shows "\<exists>h'. generateLinks l this compilation data h rs =
     Inr (this\<lparr>resourceHints := Some (map (link l (options this) (publicPath compilation))
              (sort filtered))\<rparr>,
          data, h', rs2)"
proof -
  obtain flat h1 where a: "allFiles chunks (length h) (h @ [[]]) = (flat, h1)"
    by (cases "allFiles chunks (length h) (h @ [[]])")
  from allFiles_start [OF assms(2) a] assms(3)
  have w: "filter_files (whitelisted (options this)) (new_Set (h1 ! flat)) rs = (kept, rs1)"
    by simp
  from generateLinks_unfold [OF assms(1) a w assms(4)] show ?thesis by blast
qed


lemma attribute_link:
  "attribute (link l opts pp file) k = map_of (attributes l opts (pp @ file) file) k"
  "attribute_names (link l opts pp file) = map fst (attributes l opts (pp @ file) file)"
  by (simp_all add: attribute_def attribute_names_def link_def own_property_def own_keys_def)

text \<open>The test of the per-document filter, in the words of the options.\<close>

lemma skip_iff:
  "skip this data \<longleftrightarrow>
     (\<exists>names. includeHtmlNames (options this) = Some names \<and> plugin_options_filename data \<notin> set names) \<or>
     (\<exists>names. excludeHtmlNames (options this) = Some names \<and> plugin_options_filename data \<in> set names)"
  by (auto simp: skip_def Let_def split: option.splits)

section \<open>Patterns without flags\<close>

text \<open>
  Patterns without the global and the sticky flag are tested from index 0 and never
  written, and then the blacklist does win: a path that one of its patterns matches
  has no descriptor, whatever the whitelist holds.
\<close>

lemma update_same_pattern:
  "regex'\<lparr>lastIndex := 0\<rparr> = (rs ! r)\<lparr>lastIndex := 0\<rparr> \<Longrightarrow>
     map (\<lambda>x. x\<lparr>lastIndex := 0\<rparr>) (rs[r := regex']) = map (\<lambda>x. x\<lparr>lastIndex := 0\<rparr>) rs"
  by (cases "r < length rs") (simp_all add: map_update list_update_same_conv list_update_beyond)

lemma some_test_patterns:
  "map (\<lambda>x. x\<lparr>lastIndex := 0\<rparr>) (snd (some_test list S rs)) = map (\<lambda>x. x\<lparr>lastIndex := 0\<rparr>) rs"
proof (induction list arbitrary: rs)
  case Nil
  then show ?case by simp
next
  case (Cons r list)
  have "map (\<lambda>x. x\<lparr>lastIndex := 0\<rparr>) (rs[r := snd (RegExp_test (rs ! r) S)]) =
        map (\<lambda>x. x\<lparr>lastIndex := 0\<rparr>) rs"
    by (rule update_same_pattern) (rule RegExp_test_pattern)
  with Cons.IH [of "rs[r := snd (RegExp_test (rs ! r) S)]"] show ?case
    by (simp add: case_prod_beta)
qed

lemma every_not_test_patterns:
  "map (\<lambda>x. x\<lparr>lastIndex := 0\<rparr>) (snd (every_not_test list S rs)) = map (\<lambda>x. x\<lparr>lastIndex := 0\<rparr>) rs"
proof (induction list arbitrary: rs)
  case Nil
  then show ?case by simp
next
  case (Cons r list)
  have "map (\<lambda>x. x\<lparr>lastIndex := 0\<rparr>) (rs[r := snd (RegExp_test (rs ! r) S)]) =
        map (\<lambda>x. x\<lparr>lastIndex := 0\<rparr>) rs"
    by (rule update_same_pattern) (rule RegExp_test_pattern)
  with Cons.IH [of "rs[r := snd (RegExp_test (rs ! r) S)]"] show ?case
    by (simp add: case_prod_beta)
qed

lemma same_pattern_nth:
  assumes "map (\<lambda>x. x\<lparr>lastIndex := 0\<rparr>) s = map (\<lambda>x. x\<lparr>lastIndex := 0\<rparr>) rs" and "r < length rs"
  shows "r < length s \<and> search (s ! r) = search (rs ! r) \<and> global (s ! r) = global (rs ! r) \<and>
         sticky (s ! r) = sticky (rs ! r)"
proof -
  from assms(1) have len: "length s = length rs"
    by (rule map_eq_imp_length_eq)
  with assms have "(s ! r)\<lparr>lastIndex := 0\<rparr> = (rs ! r)\<lparr>lastIndex := 0\<rparr>"
    by (metis nth_map)
  then have "search ((s ! r)\<lparr>lastIndex := 0\<rparr>) = search ((rs ! r)\<lparr>lastIndex := 0\<rparr>)"
    "global ((s ! r)\<lparr>lastIndex := 0\<rparr>) = global ((rs ! r)\<lparr>lastIndex := 0\<rparr>)"
    "sticky ((s ! r)\<lparr>lastIndex := 0\<rparr>) = sticky ((rs ! r)\<lparr>lastIndex := 0\<rparr>)"
    by simp_all
  with len assms(2) show ?thesis by simp
qed

lemma unflagged_update:
  assumes "\<not> global (s ! r)" and "\<not> sticky (s ! r)"
  shows "s[r := snd (RegExp_test (s ! r) S)] = s"
  using assms by (simp add: RegExp_test_unflagged)

lemma every_not_test_unflagged:
  assumes "\<forall>r\<in>set list. \<not> global (s ! r) \<and> \<not> sticky (s ! r)"
  shows "every_not_test list S s = (list_all (\<lambda>r. search (s ! r) S 0 = None) list, s)"
  using assms by (induction list) (simp_all add: RegExp_test_unflagged)

lemma some_test_unflagged:
  assumes "\<forall>r\<in>set list. \<not> global (s ! r) \<and> \<not> sticky (s ! r)"
  shows "some_test list S s = (list_ex (\<lambda>r. search (s ! r) S 0 \<noteq> None) list, s)"
  using assms by (induction list) (simp_all add: RegExp_test_unflagged)

lemma whitelisted_patterns:
  "map (\<lambda>x. x\<lparr>lastIndex := 0\<rparr>) (snd (whitelisted opts S rs)) = map (\<lambda>x. x\<lparr>lastIndex := 0\<rparr>) rs"
  by (simp add: whitelisted_def some_test_patterns split: option.split)

lemma blacklist_wins_unflagged:
  assumes "fileBlacklist (options this) = Some blacklist"
    and "\<forall>r\<in>set blacklist. r < length rs \<and> \<not> global (rs ! r) \<and> \<not> sticky (rs ! r)"
    and "\<exists>r\<in>set blacklist. search (rs ! r) path 0 \<noteq> None"
    and "generateLinks l this compilation data h rs = Inr (this', data', h', rs')"
  shows "\<exists>links. resourceHints this' = Some links \<and>
           (\<forall>d\<in>set links. attribute d ''href'' \<noteq> Some (JStr (publicPath compilation @ path)))"
proof -
  let ?I = "\<lambda>s. map (\<lambda>x. x\<lparr>lastIndex := 0\<rparr>) s = map (\<lambda>x. x\<lparr>lastIndex := 0\<rparr>) rs"
  let ?q = "\<lambda>S. list_all (\<lambda>r. search (rs ! r) S 0 = None) blacklist"
  from assms(4) obtain chunks flat h1 kept rs1 filtered rs2 where
    c: "htmlChunks l (options this) compilation data h = Inr chunks" and
    a: "allFiles chunks (length h) (h @ [[]]) = (flat, h1)" and
    w: "filter_files (whitelisted (options this)) (new_Set (h1 ! flat)) rs = (kept, rs1)" and
    b: "filter_files (not_blacklisted (options this)) kept rs1 = (filtered, rs2)"
    by (rule generateLinks_Inr)
  have "?I (snd (filter_files (whitelisted (options this)) (new_Set (h1 ! flat)) rs))"
    by (rule filter_files_invariant [of ?I]) (simp_all add: whitelisted_patterns)
  with w have I1: "?I rs1" by simp
  have step: "?I (snd (not_blacklisted (options this) S s)) \<and>
              fst (not_blacklisted (options this) S s) = ?q S" if "?I s" for S s
  proof -
    have u: "\<forall>r\<in>set blacklist. \<not> global (s ! r) \<and> \<not> sticky (s ! r)"
      using assms(2) same_pattern_nth [OF that] by auto
    have "list_all (\<lambda>r. search (s ! r) S 0 = None) blacklist = ?q S"
      using assms(2) same_pattern_nth [OF that] by (auto simp: list_all_iff)
    with every_not_test_unflagged [OF u, of S] that show ?thesis
      by (simp add: not_blacklisted_def assms(1))
  qed
  from filter_files_pure [of ?I rs1 "not_blacklisted (options this)" ?q kept, OF I1 step] b
  have "filtered = filter ?q kept" by simp
  moreover have "\<not> ?q path"
    using assms(3) by (auto simp: list_all_iff)
  ultimately have "path \<notin> set (sort filtered)" by simp
  with generateLinks_unfold [OF c a w b] assms(4) show ?thesis
    by (auto simp: attribute_link attributes_def Let_def)
qed

text \<open>
  With patterns without the global and the sticky flag the descriptor list is a
  function of the options, the compilation, the document and the paths in the file
  lists of the selected chunks: two runs that agree on these give the same list,
  whatever hints were pending, whatever \<^verbatim>\<open>lastIndex\<close> the patterns hold and whatever
  else the two stores hold.
\<close>

lemma deterministic_unflagged:
  assumes "options this1 = options this2"
    and "htmlChunks l (options this1) compilation data h1 = Inr chunks"
    and "htmlChunks l (options this2) compilation data h2 = Inr chunks"
    and "\<forall>chunk\<in>set chunks. files chunk < length h1 \<and> files chunk < length h2 \<and>
                              h1 ! files chunk = h2 ! files chunk"
    and "map (\<lambda>x. x\<lparr>lastIndex := 0\<rparr>) rs1 = map (\<lambda>x. x\<lparr>lastIndex := 0\<rparr>) rs2"
    and "\<forall>list. fileWhitelist (options this1) = Some list \<or> fileBlacklist (options this1) = Some list
           \<longrightarrow> (\<forall>r\<in>set list. r < length rs1 \<and> \<not> global (rs1 ! r) \<and> \<not> sticky (rs1 ! r))"
  shows "\<exists>links data' h1' h2' rs1' rs2'.
           generateLinks l this1 compilation data h1 rs1 =
             Inr (this1\<lparr>resourceHints := Some links\<rparr>, data', h1', rs1') \<and>
           generateLinks l this2 compilation data h2 rs2 =
             Inr (this2\<lparr>resourceHints := Some links\<rparr>, data', h2', rs2')"
proof -
  let ?opts = "options this1"
  let ?I = "\<lambda>s. map (\<lambda>x. x\<lparr>lastIndex := 0\<rparr>) s = map (\<lambda>x. x\<lparr>lastIndex := 0\<rparr>) rs1"
  let ?qw = "\<lambda>S. case fileWhitelist ?opts of None \<Rightarrow> True
                 | Some list \<Rightarrow> list_ex (\<lambda>r. search (rs1 ! r) S 0 \<noteq> None) list"
  let ?qb = "\<lambda>S. case fileBlacklist ?opts of None \<Rightarrow> True
                 | Some list \<Rightarrow> list_all (\<lambda>r. search (rs1 ! r) S 0 = None) list"
  let ?files = "new_Set (concat (map (\<lambda>chunk. h1 ! files chunk) chunks))"
  have same: "map (\<lambda>chunk. h2 ! files chunk) chunks = map (\<lambda>chunk. h1 ! files chunk) chunks"
    using assms(4) by simp
  have v1: "\<forall>chunk\<in>set chunks. files chunk < length h1"
    and v2: "\<forall>chunk\<in>set chunks. files chunk < length h2"
    using assms(4) by simp_all
  have stepw: "?I (snd (whitelisted ?opts S s)) \<and> fst (whitelisted ?opts S s) = ?qw S"
    if "?I s" for S s
  proof (cases "fileWhitelist ?opts")
    case None
    with that show ?thesis by (simp add: whitelisted_def)
  next
    case (Some list)
    with assms(6) have f: "\<forall>r\<in>set list. r < length rs1 \<and> \<not> global (rs1 ! r) \<and> \<not> sticky (rs1 ! r)"
      by blast
    then have u: "\<forall>r\<in>set list. \<not> global (s ! r) \<and> \<not> sticky (s ! r)"
      using same_pattern_nth [OF that] by auto
    have "list_ex (\<lambda>r. search (s ! r) S 0 \<noteq> None) list =
          list_ex (\<lambda>r. search (rs1 ! r) S 0 \<noteq> None) list"
      using f same_pattern_nth [OF that] by (auto simp: list_ex_iff)
    with some_test_unflagged [OF u, of S] that Some show ?thesis
      by (simp add: whitelisted_def)
  qed
  have stepb: "?I (snd (not_blacklisted ?opts S s)) \<and> fst (not_blacklisted ?opts S s) = ?qb S"
    if "?I s" for S s
  proof (cases "fileBlacklist ?opts")
    case None
    with that show ?thesis by (simp add: not_blacklisted_def)
  next
    case (Some list)
    with assms(6) have f: "\<forall>r\<in>set list. r < length rs1 \<and> \<not> global (rs1 ! r) \<and> \<not> sticky (rs1 ! r)"
      by blast
    then have u: "\<forall>r\<in>set list. \<not> global (s ! r) \<and> \<not> sticky (s ! r)"
      using same_pattern_nth [OF that] by auto
    have "list_all (\<lambda>r. search (s ! r) S 0 = None) list =
          list_all (\<lambda>r. search (rs1 ! r) S 0 = None) list"
      using f same_pattern_nth [OF that] by (auto simp: list_all_iff)
    with every_not_test_unflagged [OF u, of S] that Some show ?thesis
      by (simp add: not_blacklisted_def)
  qed
  have run: "\<exists>h' rs'. generateLinks l this compilation data h rs =
       Inr (this\<lparr>resourceHints := Some (map (link l ?opts (publicPath compilation))
              (sort (filter ?qb (filter ?qw ?files))))\<rparr>, data, h', rs')"
    if "options this = ?opts" and "htmlChunks l ?opts compilation data h = Inr chunks"
      and "\<forall>chunk\<in>set chunks. files chunk < length h"
      and "map (\<lambda>chunk. h ! files chunk) chunks = map (\<lambda>chunk. h1 ! files chunk) chunks"
      and "?I rs" for this h rs
  proof -
    obtain kept rs' where
      w: "filter_files (whitelisted ?opts) ?files rs = (kept, rs')"
      by (cases "filter_files (whitelisted ?opts) ?files rs")
    obtain filtered rs'' where
      b: "filter_files (not_blacklisted ?opts) kept rs' = (filtered, rs'')"
      by (cases "filter_files (not_blacklisted ?opts) kept rs'")
    from filter_files_pure [of ?I rs "whitelisted ?opts" ?qw ?files, OF that(5) stepw] w
    have k: "kept = filter ?qw ?files" by simp
    have "?I (snd (filter_files (whitelisted ?opts) ?files rs))"
      by (rule filter_files_invariant [of ?I, OF that(5)]) (simp add: whitelisted_patterns)
    with w have "?I rs'" by simp
    from filter_files_pure [of ?I rs' "not_blacklisted ?opts" ?qb kept, OF this stepb] b
    have "filtered = filter ?qb kept" by simp
    with k generateLinks_result [of l this compilation data h chunks rs kept rs' filtered rs'']
      that(1-4) w b
    show ?thesis by auto
  qed
  from run [of this1 h1 rs1] assms(2) v1
  obtain h1' rs1' where g1: "generateLinks l this1 compilation data h1 rs1 =
       Inr (this1\<lparr>resourceHints := Some (map (link l ?opts (publicPath compilation))
              (sort (filter ?qb (filter ?qw ?files))))\<rparr>, data, h1', rs1')"
    by auto
  from run [of this2 h2 rs2] assms(1,3,5) v2 same
  obtain h2' rs2' where g2: "generateLinks l this2 compilation data h2 rs2 =
       Inr (this2\<lparr>resourceHints := Some (map (link l ?opts (publicPath compilation))
              (sort (filter ?qb (filter ?qw ?files))))\<rparr>, data, h2', rs2')"
    by auto
  from g1 g2 show ?thesis by blast
qed

section \<open>The run on the example\<close>

lemma ex_htmlChunks:
  "include_opt opts = IncludeMode (lit ''allAssets'') \<Longrightarrow>
     htmlChunks ex_lib opts compilation data h = Inr [\<lparr>files = 0\<rparr>, \<lparr>files = 1\<rparr>]"
  by (simp add: htmlChunks_def ex_lib_def)

lemma ex_allFiles:
  "allFiles [\<lparr>files = 0\<rparr>, \<lparr>files = 1::nat\<rparr>] (length ex_heap) (ex_heap @ [[]]) =
    (4, ex_heap @ [[], [lit ''shared.js'', lit ''main.js''],
       [lit ''shared.js'', lit ''main.js'', lit ''font.woff2'', lit ''shared.js'', lit ''app.css'']])"
  by (simp add: ex_heap_def array_concat_def alloc_def)

lemma ex_generateLinks:
  "generateLinks ex_lib \<lparr>options = ex_options\<lparr>rel := r\<rparr>, resourceHints = old\<rparr>
       ex_compilation ex_data ex_heap rs =
     Inr (\<lparr>options = ex_options\<lparr>rel := r\<rparr>,
           resourceHints = Some (map (link ex_lib (ex_options\<lparr>rel := r\<rparr>) (lit ''/static/''))
              [lit ''app.css'', lit ''font.woff2'', lit ''main.js'', lit ''shared.js''])\<rparr>,
          ex_data,
          ex_heap @ [[], [lit ''shared.js'', lit ''main.js''],
             [lit ''shared.js'', lit ''main.js'', lit ''font.woff2'', lit ''shared.js'', lit ''app.css''],
             [lit ''shared.js'', lit ''main.js'', lit ''font.woff2'', lit ''app.css''],
             [lit ''shared.js'', lit ''main.js'', lit ''font.woff2'', lit ''app.css''],
             [lit ''app.css'', lit ''font.woff2'', lit ''main.js'', lit ''shared.js'']],
          rs)"
proof -
  let ?t = "\<lparr>options = ex_options\<lparr>rel := r\<rparr>, resourceHints = old\<rparr>"
  have c: "htmlChunks ex_lib (options ?t) ex_compilation ex_data ex_heap =
      Inr [\<lparr>files = 0\<rparr>, \<lparr>files = 1\<rparr>]"
    by (simp add: ex_htmlChunks ex_options_def)
  have all: "whitelisted (options ?t) = (\<lambda>file rs. (True, rs))"
    "not_blacklisted (options ?t) = (\<lambda>file rs. (True, rs))"
    by (simp_all add: whitelisted_def not_blacklisted_def ex_options_def fun_eq_iff)
  from generateLinks_unfold [OF c ex_allFiles, unfolded all, OF filter_files_all filter_files_all]
  show ?thesis
    by (simp add: new_Set_def Set_add_def
        ex_options_def ex_compilation_def ex_heap_def publicPath_def lit_def)
qed

lemma ex_preload_generateLinks:
  "generateLinks ex_lib ex_plugin ex_compilation ex_data ex_heap rs =
     Inr (\<lparr>options = ex_options,
           resourceHints = Some (map (link ex_lib ex_options (lit ''/static/''))
              [lit ''app.css'', lit ''font.woff2'', lit ''main.js'', lit ''shared.js''])\<rparr>,
          ex_data,
          ex_heap @ [[], [lit ''shared.js'', lit ''main.js''],
             [lit ''shared.js'', lit ''main.js'', lit ''font.woff2'', lit ''shared.js'', lit ''app.css''],
             [lit ''shared.js'', lit ''main.js'', lit ''font.woff2'', lit ''app.css''],
             [lit ''shared.js'', lit ''main.js'', lit ''font.woff2'', lit ''app.css''],
             [lit ''app.css'', lit ''font.woff2'', lit ''main.js'', lit ''shared.js'']],
          rs)"
proof -
  have "ex_options\<lparr>rel := lit ''preload''\<rparr> = ex_options"
    by (simp add: ex_options_def)
  with ex_generateLinks [of "lit ''preload''" None rs] show ?thesis
    by (simp add: ex_plugin_def)
qed

lemma ex_astral_generateLinks:
  "generateLinks ex_lib ex_plugin ex_compilation ex_data ex_astral_heap rs =
     Inr (ex_plugin\<lparr>resourceHints := Some (map (link ex_lib ex_options (lit ''/static/''))
              [[0xD83D, 0xDE00] @ lit ''.js'', [0xFF5E] @ lit ''.js''])\<rparr>,
          ex_data,
          ex_astral_heap @ [[], [[0xFF5E] @ lit ''.js''],
             [[0xFF5E] @ lit ''.js'', [0xD83D, 0xDE00] @ lit ''.js''],
             [[0xFF5E] @ lit ''.js'', [0xD83D, 0xDE00] @ lit ''.js''],
             [[0xFF5E] @ lit ''.js'', [0xD83D, 0xDE00] @ lit ''.js''],
             [[0xD83D, 0xDE00] @ lit ''.js'', [0xFF5E] @ lit ''.js'']],
          rs)"
proof -
  have c: "htmlChunks ex_lib (options ex_plugin) ex_compilation ex_data ex_astral_heap =
      Inr [\<lparr>files = 0\<rparr>, \<lparr>files = 1\<rparr>]"
    by (simp add: ex_htmlChunks ex_plugin_def ex_options_def)
  have a: "allFiles [\<lparr>files = 0\<rparr>, \<lparr>files = 1::nat\<rparr>] (length ex_astral_heap) (ex_astral_heap @ [[]]) =
    (4, ex_astral_heap @ [[], [[0xFF5E] @ lit ''.js''],
             [[0xFF5E] @ lit ''.js'', [0xD83D, 0xDE00] @ lit ''.js'']])"
    by (simp add: ex_astral_heap_def array_concat_def alloc_def)
  have all: "whitelisted (options ex_plugin) = (\<lambda>file rs. (True, rs))"
    "not_blacklisted (options ex_plugin) = (\<lambda>file rs. (True, rs))"
    by (simp_all add: whitelisted_def not_blacklisted_def ex_plugin_def ex_options_def fun_eq_iff)
  from generateLinks_unfold [OF c a, unfolded all, OF filter_files_all filter_files_all]
  show ?thesis
    by (simp add: new_Set_def Set_add_def ex_plugin_def
        ex_options_def ex_compilation_def ex_astral_heap_def publicPath_def lit_def)
qed

text \<open>
  The run with the whitelist \<^verbatim>\<open>/\.js$/\<close>, \<^verbatim>\<open>/\.css$/\<close> and the blacklist
  \<^verbatim>\<open>/^shared/\<close>, none with a flag: the font is not on the whitelist, shared.js is
  on the blacklist, and the patterns are as they were.
\<close>

lemma ex_filtering_generateLinks:
  "generateLinks ex_lib ex_filtering ex_compilation ex_data ex_heap ex_patterns =
     Inr (ex_filtering\<lparr>resourceHints := Some (map (link ex_lib (options ex_filtering)
              (publicPath ex_compilation)) [lit ''app.css'', lit ''main.js''])\<rparr>,
          ex_data,
          (ex_heap @ [[], [lit ''shared.js'', lit ''main.js''],
             [lit ''shared.js'', lit ''main.js'', lit ''font.woff2'', lit ''shared.js'', lit ''app.css'']])
            @ [[lit ''shared.js'', lit ''main.js'', lit ''font.woff2'', lit ''app.css''],
               [lit ''shared.js'', lit ''main.js'', lit ''app.css''],
               [lit ''app.css'', lit ''main.js'']],
          ex_patterns)"
proof -
  have c: "htmlChunks ex_lib (options ex_filtering) ex_compilation ex_data ex_heap =
      Inr [\<lparr>files = 0\<rparr>, \<lparr>files = 1\<rparr>]"
    by (simp add: ex_htmlChunks ex_filtering_def ex_options_def)
  have u: "new_Set ((ex_heap @ [[], [lit ''shared.js'', lit ''main.js''],
       [lit ''shared.js'', lit ''main.js'', lit ''font.woff2'', lit ''shared.js'', lit ''app.css'']]) ! 4) =
      [lit ''shared.js'', lit ''main.js'', lit ''font.woff2'', lit ''app.css'']"
    by (simp add: ex_heap_def new_Set_def Set_add_def lit_def)
  have w: "filter_files (whitelisted (options ex_filtering))
      [lit ''shared.js'', lit ''main.js'', lit ''font.woff2'', lit ''app.css''] ex_patterns =
      ([lit ''shared.js'', lit ''main.js'', lit ''app.css''], ex_patterns)"
    by (simp add: whitelisted_def ex_filtering_def ex_options_def ex_patterns_def
        RegExp_test_def suffix_pattern_def prefix_pattern_def ends_with_def lit_def)
  have b: "filter_files (not_blacklisted (options ex_filtering))
      [lit ''shared.js'', lit ''main.js'', lit ''app.css''] ex_patterns =
      ([lit ''main.js'', lit ''app.css''], ex_patterns)"
    by (simp add: not_blacklisted_def ex_filtering_def ex_options_def ex_patterns_def
        RegExp_test_def suffix_pattern_def prefix_pattern_def ends_with_def lit_def)
  have s: "sort [lit ''main.js'', lit ''app.css''] = [lit ''app.css'', lit ''main.js'']"
    by (simp add: lit_def)
  from generateLinks_unfold [OF c ex_allFiles, unfolded u, OF w b, unfolded s]
  show ?thesis by simp
qed

text \<open>
  The mapping that the before-hook derives from the statistics on the example: the
  chunk main has a file among the scripts of the document, the other chunk has none.
\<close>

lemma ex_buildReducer:
  "foldl (buildReducer ex_compilation ex_data) [] (stats_chunks ex_compilation) =
     [(lit ''main'',
       \<lparr>info_size = Some 10, info_entry = Some (lit ''/static/main.js?a1b2''),
        info_hash = Some (lit ''c3d4''), info_css = [lit ''/static/main.css?a1b2'']\<rparr>)]"
  by (simp add: buildReducer_def ex_compilation_def ex_data_def publicPath_def appendHash_def
      chunkName_def object_set_def is_line_terminator_def Let_def lit_def)

section \<open>The claims\<close>

text \<open>
  C1, as amended. Without fileWhitelist and fileBlacklist, when the file list of
  every selected chunk is an array of the store, generateLinks returns, and the hrefs
  of its descriptors are the public path followed by each distinct file path of the
  selected chunks: every such path has exactly one descriptor (two chunks that share
  a path give it once), and the descriptors follow the order of the default sort, the
  lexicographic order of the UTF-16 code units of the paths. That is the order of the
  code points when no path has a high surrogate.
\<close>

theorem unique_sorted_links:
  assumes "fileWhitelist (options this) = None" and "fileBlacklist (options this) = None"
    and "htmlChunks l (options this) compilation data h = Inr chunks"
    and "\<forall>chunk\<in>set chunks. files chunk < length h"
  shows "\<exists>this' data' h' rs' links.
     generateLinks l this compilation data h rs = Inr (this', data', h', rs') \<and>
     resourceHints this' = Some links \<and>
     (let paths = sorted_list_of_set (\<Union>chunk\<in>set chunks. set (h ! files chunk)) in
        map (\<lambda>d. attribute d ''href'') links =
          map (\<lambda>file. Some (JStr (publicPath compilation @ file))) paths \<and>
        set paths = (\<Union>chunk\<in>set chunks. set (h ! files chunk)) \<and>
        distinct paths \<and> sorted paths \<and>
        (\<forall>file\<in>set paths.
           length (filter (\<lambda>d. attribute d ''href'' = Some (JStr (publicPath compilation @ file)))
                     links) = 1) \<and>
        ((\<forall>file\<in>set paths. \<forall>u\<in>set file. \<not> (0xD800 \<le> u \<and> u \<le> 0xDBFF)) \<longrightarrow>
           sorted (map codePoints paths)))"
proof -
  let ?F = "\<Union>chunk\<in>set chunks. set (h ! files chunk)"
  let ?paths = "sorted_list_of_set ?F"
  let ?pp = "publicPath compilation"
  let ?links = "map (link l (options this) ?pp) ?paths"
  have all: "whitelisted (options this) = (\<lambda>file rs. (True, rs))"
    "not_blacklisted (options this) = (\<lambda>file rs. (True, rs))"
    using assms(1,2) by (simp_all add: whitelisted_def not_blacklisted_def fun_eq_iff)
  have F: "set (concat (map (\<lambda>chunk. h ! files chunk) chunks)) = ?F"
    by auto
  from generateLinks_result [OF assms(3,4), unfolded all, OF filter_files_all filter_files_all]
  obtain h' where
    g: "generateLinks l this compilation data h rs =
          Inr (this\<lparr>resourceHints := Some ?links\<rparr>, data, h', rs)"
    by (auto simp: sort_new_Set F)
  have hrefs: "map (\<lambda>d. attribute d ''href'') ?links =
          map (\<lambda>file. Some (JStr (?pp @ file))) ?paths"
    by (simp add: attribute_link attributes_def Let_def)
  have once: "length (filter (\<lambda>d. attribute d ''href'' = Some (JStr (?pp @ p))) ?links) = 1"
    if "p \<in> set ?paths" for p
  proof -
    have "filter (\<lambda>d. attribute d ''href'' = Some (JStr (?pp @ p))) ?links
          = map (link l (options this) ?pp) (filter (\<lambda>f. f = p) ?paths)"
      by (simp add: filter_map comp_def attribute_link attributes_def Let_def)
    moreover have "length (filter (\<lambda>f. f = p) ?paths) = 1"
      using that by (intro distinct_filter_eq_length) simp_all
    ultimately show ?thesis by simp
  qed
  have fin: "finite ?F" by simp
  have sets: "set ?paths = ?F" "distinct ?paths" "sorted ?paths"
    using fin by simp_all
  have cp: "(\<forall>file\<in>set ?paths. \<forall>u\<in>set file. \<not> (0xD800 \<le> u \<and> u \<le> 0xDBFF)) \<longrightarrow>
           sorted (map codePoints ?paths)"
    using sets(3) by (blast intro: sorted_codePoints)
  have P: "let paths = ?paths in
        map (\<lambda>d. attribute d ''href'') ?links =
          map (\<lambda>file. Some (JStr (publicPath compilation @ file))) paths \<and>
        set paths = ?F \<and>
        distinct paths \<and> sorted paths \<and>
        (\<forall>file\<in>set paths.
           length (filter (\<lambda>d. attribute d ''href'' = Some (JStr (publicPath compilation @ file)))
                     ?links) = 1) \<and>
        ((\<forall>file\<in>set paths. \<forall>u\<in>set file. \<not> (0xD800 \<le> u \<and> u \<le> 0xDBFF)) \<longrightarrow>
           sorted (map codePoints paths))"
    unfolding Let_def using hrefs sets once cp by (intro conjI ballI)
  show ?thesis
  proof (intro exI conjI)
    show "generateLinks l this compilation data h rs =
          Inr (this\<lparr>resourceHints := Some ?links\<rparr>, data, h', rs)"
      by (fact g)
    show "resourceHints (this\<lparr>resourceHints := Some ?links\<rparr>) = Some ?links"
      by simp
    show "let paths = ?paths in
        map (\<lambda>d. attribute d ''href'') ?links =
          map (\<lambda>file. Some (JStr (publicPath compilation @ file))) paths \<and>
        set paths = ?F \<and>
        distinct paths \<and> sorted paths \<and>
        (\<forall>file\<in>set paths.
           length (filter (\<lambda>d. attribute d ''href'' = Some (JStr (publicPath compilation @ file)))
                     ?links) = 1) \<and>
        ((\<forall>file\<in>set paths. \<forall>u\<in>set file. \<not> (0xD800 \<le> u \<and> u \<le> 0xDBFF)) \<longrightarrow>
           sorted (map codePoints paths))"
      by (fact P)
  qed
qed

theorem unique_sorted_links_witness:
  "\<exists>this' data' h' rs'.
     generateLinks ex_lib ex_async ex_compilation ex_async_data ex_heap [] = Inr (this', data', h', rs') \<and>
     map_option (map (\<lambda>d. attribute d ''href'')) (resourceHints this') =
       Some [Some (JStr (lit ''/static/main.js'')), Some (JStr (lit ''/static/shared.js''))]"
proof -
  have w: "fileWhitelist (options ex_async) = None" and b: "fileBlacklist (options ex_async) = None"
    by (simp_all add: ex_async_def ex_options_def)
  have c: "htmlChunks ex_lib (options ex_async) ex_compilation ex_async_data ex_heap =
      Inr [\<lparr>files = 0\<rparr>]"
    by (simp add: htmlChunks_def ex_lib_def ex_async_def ex_options_def ex_async_data_def
        ex_data_def ex_heap_def object_values_def own_properties_def is_array_index_def
        is_digit_def lit_def)
  have v: "\<forall>chunk\<in>set [\<lparr>files = 0::nat\<rparr>]. files chunk < length ex_heap"
    by (simp add: ex_heap_def)
  have F: "(\<Union>chunk\<in>set [\<lparr>files = 0::nat\<rparr>]. set (ex_heap ! files chunk)) =
      set [lit ''shared.js'', lit ''main.js'']"
    by (simp add: ex_heap_def)
  have s: "sorted_list_of_set (set [lit ''shared.js'', lit ''main.js'']) =
      [lit ''main.js'', lit ''shared.js'']"
    unfolding sorted_list_of_set_sort_remdups by (simp add: lit_def)
  from unique_sorted_links [OF w b c v, where rs = "[]"] show ?thesis
    unfolding F s Let_def
    by (auto simp: publicPath_def ex_compilation_def lit_def)
qed

text \<open>
  C1, as stated, fails for a file name that starts with U+1F600, the surrogate pair
  D83D DE00, and one that starts with U+FF5E: the default sort puts the surrogate
  pair first, and the code points are in the other order.
\<close>

theorem code_point_order_counterexample:
  "\<exists>this' data' h' rs' links.
     generateLinks ex_lib ex_plugin ex_compilation ex_data ex_astral_heap [] = Inr (this', data', h', rs') \<and>
     resourceHints this' = Some links \<and>
     map (\<lambda>d. attribute d ''href'') links =
       [Some (JStr (lit ''/static/'' @ [0xD83D, 0xDE00] @ lit ''.js'')),
        Some (JStr (lit ''/static/'' @ [0xFF5E] @ lit ''.js''))] \<and>
     codePoints ([0xD83D, 0xDE00] @ lit ''.js'') = 0x1F600 # map unat (lit ''.js'') \<and>
     codePoints ([0xFF5E] @ lit ''.js'') = 0xFF5E # map unat (lit ''.js'') \<and>
     \<not> sorted (map codePoints [[0xD83D, 0xDE00] @ lit ''.js'', [0xFF5E] @ lit ''.js''])"
  unfolding ex_astral_generateLinks
  by (simp add: attribute_link attributes_def Let_def ex_options_def lit_def)

text \<open>
  C2. With \<^verbatim>\<open>rel\<close> set to \<^verbatim>\<open>prefetch\<close>, every link descriptor that generateLinks
  produces has the attributes href and rel and no other: it has no \<^verbatim>\<open>as\<close> and no
  \<^verbatim>\<open>crossorigin\<close> attribute, whatever the file.
\<close>

theorem prefetch_only_href_rel:
  assumes "rel (options this) = lit ''prefetch''"
    and "generateLinks l this compilation data h rs = Inr (this', data', h', rs')"
  shows "\<exists>links. resourceHints this' = Some links \<and>
           (\<forall>d\<in>set links. attribute_names d = [''href'', ''rel''] \<and>
                           attribute d ''as'' = None \<and> attribute d ''crossorigin'' = None)"
proof -
  have ne: "lit ''prefetch'' \<noteq> lit ''preload''"
    by (simp add: lit_def)
  from generateLinks_links [OF assms(2)] obtain fs where
    "resourceHints this' = Some (map (link l (options this) (publicPath compilation)) fs)" ..
  then show ?thesis
    using assms(1) ne by (auto simp: attribute_link attributes_def)
qed

theorem prefetch_only_href_rel_witness:
  "\<exists>this' data' h' rs'.
     generateLinks ex_lib ex_prefetch ex_compilation ex_data ex_heap [] = Inr (this', data', h', rs') \<and>
     map_option (map attribute_names) (resourceHints this') =
       Some [[''href'', ''rel''], [''href'', ''rel''], [''href'', ''rel''], [''href'', ''rel'']]"
proof -
  have r: "rel (options ex_prefetch) = lit ''prefetch''"
    by (simp add: ex_prefetch_def)
  note g = ex_generateLinks [of "lit ''prefetch''" None "[]", folded ex_prefetch_def]
  from prefetch_only_href_rel [OF r g] show ?thesis
    unfolding g by force
qed

text \<open>
  C3. The claim asks that a path which a pattern of the whitelist and a pattern of
  the blacklist match has no descriptor. The code does not see to that for a
  blacklist pattern with the global flag. With the whitelist \<^verbatim>\<open>/\.js$/\<close> and the
  blacklist \<^verbatim>\<open>/^shared/g\<close> on the files main.js, shared.js and shared2.js, the test
  of shared.js leaves \<^verbatim>\<open>lastIndex\<close> at 6, the test of shared2.js starts there and
  fails, and shared2.js, which each of the two patterns as configured matches, has a
  descriptor.
\<close>

theorem global_blacklist_keeps_match:
  "\<exists>this' data' h' rs' links.
     generateLinks ex_lib ex_global_blacklist ex_compilation ex_data ex_shared_heap
       ex_global_patterns = Inr (this', data', h', rs') \<and>
     resourceHints this' = Some links \<and>
     map (\<lambda>d. attribute d ''href'') links =
       [Some (JStr (lit ''/static/main.js'')), Some (JStr (lit ''/static/shared2.js''))] \<and>
     fileWhitelist (options ex_global_blacklist) = Some [0] \<and>
     fst (RegExp_test (ex_global_patterns ! 0) (lit ''shared2.js'')) \<and>
     fileBlacklist (options ex_global_blacklist) = Some [1] \<and>
     fst (RegExp_test (ex_global_patterns ! 1) (lit ''shared2.js''))"
proof -
  have c: "htmlChunks ex_lib (options ex_global_blacklist) ex_compilation ex_data ex_shared_heap =
      Inr [\<lparr>files = 0\<rparr>, \<lparr>files = 1\<rparr>]"
    by (simp add: ex_htmlChunks ex_global_blacklist_def ex_options_def)
  have a: "allFiles [\<lparr>files = 0\<rparr>, \<lparr>files = 1::nat\<rparr>] (length ex_shared_heap) (ex_shared_heap @ [[]]) =
    (4, ex_shared_heap @ [[], [lit ''main.js'', lit ''shared.js''],
       [lit ''main.js'', lit ''shared.js'', lit ''shared.js'', lit ''shared2.js'']])"
    by (simp add: ex_shared_heap_def array_concat_def alloc_def)
  have u: "new_Set ((ex_shared_heap @ [[], [lit ''main.js'', lit ''shared.js''],
       [lit ''main.js'', lit ''shared.js'', lit ''shared.js'', lit ''shared2.js'']]) ! 4) =
      [lit ''main.js'', lit ''shared.js'', lit ''shared2.js'']"
    by (simp add: ex_shared_heap_def new_Set_def Set_add_def lit_def)
  have w: "filter_files (whitelisted (options ex_global_blacklist))
      [lit ''main.js'', lit ''shared.js'', lit ''shared2.js''] ex_global_patterns =
      ([lit ''main.js'', lit ''shared.js'', lit ''shared2.js''], ex_global_patterns)"
    by (simp add: whitelisted_def ex_global_blacklist_def ex_options_def ex_global_patterns_def
        RegExp_test_def suffix_pattern_def prefix_pattern_def ends_with_def lit_def)
  have b: "filter_files (not_blacklisted (options ex_global_blacklist))
      [lit ''main.js'', lit ''shared.js'', lit ''shared2.js''] ex_global_patterns =
      ([lit ''main.js'', lit ''shared2.js''], ex_global_patterns)"
    by (simp add: not_blacklisted_def ex_global_blacklist_def ex_options_def ex_global_patterns_def
        RegExp_test_def suffix_pattern_def prefix_pattern_def ends_with_def lit_def)
  have s: "sort [lit ''main.js'', lit ''shared2.js''] = [lit ''main.js'', lit ''shared2.js'']"
    by (simp add: lit_def)
  have m: "fst (RegExp_test (ex_global_patterns ! 0) (lit ''shared2.js''))"
    "fst (RegExp_test (ex_global_patterns ! 1) (lit ''shared2.js''))"
    by (simp_all add: ex_global_patterns_def RegExp_test_def suffix_pattern_def
        prefix_pattern_def ends_with_def lit_def)
  from generateLinks_unfold [OF c a, unfolded u, OF w b] m show ?thesis
    unfolding s
    by (simp add: attribute_link attributes_def Let_def publicPath_def ex_compilation_def
        ex_global_blacklist_def ex_options_def lit_def)
qed

text \<open>
  C4. The descriptor of a file carries its href. With \<^verbatim>\<open>rel\<close> set to \<^verbatim>\<open>preload\<close>,
  when the value resolved for the file is \<^verbatim>\<open>font\<close> the descriptor has
  \<^verbatim>\<open>as\<close> equal to \<^verbatim>\<open>font\<close> and \<^verbatim>\<open>crossorigin\<close> equal to the empty string; and a
  descriptor has a \<^verbatim>\<open>crossorigin\<close> attribute only when the plugin preloads and the
  value resolved for its file is \<^verbatim>\<open>font\<close>.
\<close>

theorem font_crossorigin:
  assumes "generateLinks l this compilation data h rs = Inr (this', data', h', rs')"
  shows "\<exists>fs links. resourceHints this' = Some links \<and>
     list_all2 (\<lambda>file d.
        let href = publicPath compilation @ file;
            resolved = determineAsValue l href file (as_opt (options this))
        in attribute d ''href'' = Some (JStr href) \<and>
           (rel (options this) = lit ''preload'' \<and> resolved = JStr (lit ''font'') \<longrightarrow>
              attribute d ''as'' = Some (JStr (lit ''font'')) \<and>
              attribute d ''crossorigin'' = Some (JStr [])) \<and>
           (attribute d ''crossorigin'' \<noteq> None \<longrightarrow>
              rel (options this) = lit ''preload'' \<and> resolved = JStr (lit ''font'') \<and>
              attribute d ''as'' = Some (JStr (lit ''font'')))) fs links"
proof -
  from generateLinks_links [OF assms] obtain fs where
    links: "resourceHints this' = Some (map (link l (options this) (publicPath compilation)) fs)" ..
  have "list_all2 (\<lambda>file d.
        let href = publicPath compilation @ file;
            resolved = determineAsValue l href file (as_opt (options this))
        in attribute d ''href'' = Some (JStr href) \<and>
           (rel (options this) = lit ''preload'' \<and> resolved = JStr (lit ''font'') \<longrightarrow>
              attribute d ''as'' = Some (JStr (lit ''font'')) \<and>
              attribute d ''crossorigin'' = Some (JStr [])) \<and>
           (attribute d ''crossorigin'' \<noteq> None \<longrightarrow>
              rel (options this) = lit ''preload'' \<and> resolved = JStr (lit ''font'') \<and>
              attribute d ''as'' = Some (JStr (lit ''font'')))) fs
         (map (link l (options this) (publicPath compilation)) fs)"
    by (simp add: list_all2_map2 list.rel_refl_strong attribute_link attributes_def Let_def)
  with links show ?thesis by blast
qed

theorem font_crossorigin_witness:
  "\<exists>this' data' h' rs'.
     generateLinks ex_lib ex_plugin ex_compilation ex_data ex_heap [] = Inr (this', data', h', rs') \<and>
     map_option (map (\<lambda>d. (attribute d ''href'', attribute d ''as'', attribute d ''crossorigin'')))
         (resourceHints this') =
       Some [(Some (JStr (lit ''/static/app.css'')), Some (JStr (lit ''style'')), None),
             (Some (JStr (lit ''/static/font.woff2'')), Some (JStr (lit ''font'')), Some (JStr [])),
             (Some (JStr (lit ''/static/main.js'')), Some (JStr (lit ''script'')), None),
             (Some (JStr (lit ''/static/shared.js'')), Some (JStr (lit ''script'')), None)]"
proof -
  note g = ex_preload_generateLinks [of "[]"]
  have "determineAsValue ex_lib (lit ''/static/font.woff2'') (lit ''font.woff2'') None = JStr (lit ''font'')"
    by (simp add: ex_lib_def defaultAsValue_def ends_with_def lit_def)
  with font_crossorigin [OF g] show ?thesis
    unfolding g
    by (simp add: attribute_link attributes_def ex_lib_def defaultAsValue_def ends_with_def
        ex_options_def lit_def)
qed

text \<open>
  C5. When includeHtmlNames is set and does not list the file name of the document,
  or excludeHtmlNames is set and lists it, the before-hook leaves the plugin, and so
  its pending hints, as they were, as well as the store, the patterns and the tag
  lists of the document, and the after-hook returns the document as it was.
\<close>

theorem excluded_document_skipped:
  assumes "(\<exists>names. includeHtmlNames (options this) = Some names \<and>
                    plugin_options_filename data \<notin> set names) \<or>
           (\<exists>names. excludeHtmlNames (options this) = Some names \<and>
                    plugin_options_filename data \<in> set names)"
  shows "(\<exists>data'. beforeHook l this compilation data h rs = Inr (this, data', h, rs) \<and>
            headTags data' = headTags data \<and> head data' = head data) \<and>
         afterHook this data = data"
proof -
  have s: "skip this d" if "plugin_options_filename d = plugin_options_filename data" for d
    using assms that by (simp add: skip_iff)
  have "\<exists>data'. beforeHook l this compilation data h rs = Inr (this, data', h, rs) \<and>
            headTags data' = headTags data \<and> head data' = head data"
    by (simp add: beforeHook_def Let_def s)
  moreover have "afterHook this data = data"
    by (simp add: afterHook_def s)
  ultimately show ?thesis ..
qed

theorem excluded_document_skipped_witness:
  "beforeHook ex_lib ex_excluding ex_compilation ex_data ex_heap ex_patterns =
     Inr (ex_excluding,
          ex_data\<lparr>assets_chunks := Some [(lit ''main'',
             \<lparr>info_size = Some 10, info_entry = Some (lit ''/static/main.js?a1b2''),
              info_hash = Some (lit ''c3d4''), info_css = [lit ''/static/main.css?a1b2'']\<rparr>)]\<rparr>,
          ex_heap, ex_patterns) \<and>
   afterHook ex_excluding ex_data = ex_data"
proof -
  have "(\<exists>names. includeHtmlNames (options ex_excluding) = Some names \<and>
                    plugin_options_filename ex_data \<notin> set names) \<or>
           (\<exists>names. excludeHtmlNames (options ex_excluding) = Some names \<and>
                    plugin_options_filename ex_data \<in> set names)"
    by (simp add: ex_excluding_def ex_data_def)
  moreover have "skip ex_excluding (ex_data\<lparr>assets_chunks := cs\<rparr>)" for cs
    by (simp add: skip_def ex_excluding_def ex_data_def)
  moreover have "plugin_version ex_data = Some 4" "assets_chunks ex_data = None"
    by (simp_all add: ex_data_def)
  moreover have "object_assign [] [(lit ''main'', i)] = [(lit ''main'', i)]" for i :: chunk_info
    by (simp add: object_assign_def own_properties_def object_set_def is_array_index_def
        is_digit_def lit_def)
  ultimately show ?thesis
    using excluded_document_skipped [of ex_excluding ex_data ex_lib ex_compilation ex_heap ex_patterns]
    by (simp add: beforeHook_def ex_buildReducer)
qed

text \<open>
  C6. For a document that is not excluded, with a list of hints pending, the
  after-hook sets the head-tag list of the document (\<^verbatim>\<open>headTags\<close> from version 4 of
  the host on, \<^verbatim>\<open>head\<close> before) to the pending hints followed by the tags that
  were there: the hints come first, and both lists keep their order.
\<close>

theorem hints_prepended:
  assumes "includeHtmlNames (options this) = None \<or>
           (\<exists>names. includeHtmlNames (options this) = Some names \<and>
                    plugin_options_filename data \<in> set names)"
    and "excludeHtmlNames (options this) = None \<or>
           (\<exists>names. excludeHtmlNames (options this) = Some names \<and>
                    plugin_options_filename data \<notin> set names)"
    and "resourceHints this = Some hints"
  shows "(if (case plugin_version data of None \<Rightarrow> False | Some v \<Rightarrow> v \<ge> 4)
          then headTags (afterHook this data) = hints @ headTags data
          else head (afterHook this data) = hints @ head data)"
proof -
  have "\<not> skip this data"
    using assms(1,2) by (auto simp: skip_iff)
  with assms(3) show ?thesis
    by (simp add: afterHook_def)
qed

theorem hints_prepended_witness:
  "headTags (afterHook ex_pending ex_data) =
     [JObj [(''tagName'', JStr (lit ''link'')), (''voidTag'', JBool True)],
      JObj [(''tagName'', JStr (lit ''title''))]] \<and>
   head (afterHook ex_pending (ex_data\<lparr>plugin_version := None, head := [JObj [(''tagName'', JStr (lit ''meta''))]]\<rparr>)) =
     [JObj [(''tagName'', JStr (lit ''link'')), (''voidTag'', JBool True)],
      JObj [(''tagName'', JStr (lit ''meta''))]]"
proof -
  have i: "includeHtmlNames (options ex_pending) = None \<or>
           (\<exists>names. includeHtmlNames (options ex_pending) = Some names \<and>
                    plugin_options_filename d \<in> set names)" for d
    by (simp add: ex_pending_def ex_options_def)
  have e: "excludeHtmlNames (options ex_pending) = None \<or>
           (\<exists>names. excludeHtmlNames (options ex_pending) = Some names \<and>
                    plugin_options_filename d \<notin> set names)" for d
    by (simp add: ex_pending_def ex_options_def)
  have r: "resourceHints ex_pending =
      Some [JObj [(''tagName'', JStr (lit ''link'')), (''voidTag'', JBool True)]]"
    by (simp add: ex_pending_def)
  from hints_prepended [OF i e r, of ex_data]
    hints_prepended [OF i e r, of "ex_data\<lparr>plugin_version := None, head := [JObj [(''tagName'', JStr (lit ''meta''))]]\<rparr>"]
  show ?thesis
    by (simp add: ex_data_def)
qed

text \<open>
  C7, as amended. Every link descriptor that generateLinks produces is the object
  \<^verbatim>\<open>{ tagName: 'link', attributes, voidTag: true }\<close> whose attributes are href and rel,
  then \<^verbatim>\<open>as\<close>, then \<^verbatim>\<open>crossorigin\<close>, the last two optional: the marker of a void
  element is the field \<^verbatim>\<open>voidTag\<close>, which is true, and the descriptor has no field
  \<^verbatim>\<open>isVoidElement\<close>.
\<close>

theorem descriptor_shape:
  assumes "generateLinks l this compilation data h rs = Inr (this', data', h', rs')"
  shows "\<exists>links. resourceHints this' = Some links \<and>
     (\<forall>d\<in>set links. \<exists>attrs.
        d = JObj [(''tagName'', JStr (lit ''link'')),
                  (''attributes'', JObj attrs),
                  (''voidTag'', JBool True)] \<and>
        map fst attrs \<in> {[''href'', ''rel''], [''href'', ''rel'', ''as''],
                          [''href'', ''rel'', ''as'', ''crossorigin'']} \<and>
        own_property d ''voidTag'' = Some (JBool True) \<and>
        own_property d ''isVoidElement'' = None)"
proof -
  from generateLinks_links [OF assms] obtain fs where
    links: "resourceHints this' = Some (map (link l (options this) (publicPath compilation)) fs)" ..
  have "map fst (attributes l opts href f) \<in> {[''href'', ''rel''], [''href'', ''rel'', ''as''],
          [''href'', ''rel'', ''as'', ''crossorigin'']}" for opts href f
    by (simp add: attributes_def Let_def)
  then show ?thesis
    unfolding links by (auto simp: link_def own_property_def)
qed

theorem descriptor_shape_witness:
  "\<exists>this' data' h' rs'.
     generateLinks ex_lib ex_plugin ex_compilation ex_data ex_heap [] = Inr (this', data', h', rs') \<and>
     map_option (map (\<lambda>d. (own_keys d, own_property d ''voidTag'', own_property d ''isVoidElement'')))
         (resourceHints this') =
       Some (replicate 4 ([''tagName'', ''attributes'', ''voidTag''], Some (JBool True), None))"
proof -
  note g = ex_preload_generateLinks [of "[]"]
  from descriptor_shape [OF g] show ?thesis
    unfolding g
    by (simp add: link_def own_keys_def own_property_def numeral_eq_Suc)
qed

text \<open>
  C7, as stated, fails on the example: the descriptors exist and none of them has a
  field \<^verbatim>\<open>isVoidElement\<close> that is true.
\<close>

theorem isVoidElement_counterexample:
  "\<exists>this' data' h' rs' links.
     generateLinks ex_lib ex_plugin ex_compilation ex_data ex_heap [] = Inr (this', data', h', rs') \<and>
     resourceHints this' = Some links \<and> links \<noteq> [] \<and>
     \<not> (\<exists>d\<in>set links. own_property d ''isVoidElement'' = Some (JBool True))"
  unfolding ex_preload_generateLinks
  by (simp add: link_def own_property_def)

text \<open>
  C8. The claim asks that two runs with the same compilation, the same configuration
  and the same document give the same descriptor list. The code does not see to that
  for a pattern with the global flag, whose \<^verbatim>\<open>lastIndex\<close> stays from one run to the
  next. With the whitelist \<^verbatim>\<open>/\.js$/g\<close> on the files a.js, b.js and c.js, the first
  run gives descriptors for a.js and c.js and leaves \<^verbatim>\<open>lastIndex\<close> at 4; the second
  run, by the same plugin on the same compilation and document, with the file lists
  of the chunks as they were, gives a descriptor for b.js alone.
\<close>

theorem global_whitelist_runs_differ:
  "\<exists>this' data' h' rs' this'' data'' h'' rs''.
     generateLinks ex_lib ex_global_whitelist ex_compilation ex_data ex_abc_heap
       ex_global_whitelist_patterns = Inr (this', data', h', rs') \<and>
     generateLinks ex_lib this' ex_compilation data' h' rs' = Inr (this'', data'', h'', rs'') \<and>
     options this' = options ex_global_whitelist \<and> data' = ex_data \<and>
     take (length ex_abc_heap) h' = ex_abc_heap \<and>
     map lastIndex rs' = [4] \<and>
     map_option (map (\<lambda>d. attribute d ''href'')) (resourceHints this') =
       Some [Some (JStr (lit ''/static/a.js'')), Some (JStr (lit ''/static/c.js''))] \<and>
     map_option (map (\<lambda>d. attribute d ''href'')) (resourceHints this'') =
       Some [Some (JStr (lit ''/static/b.js''))]"
proof -
  let ?abc = "[lit ''a.js'', lit ''b.js'', lit ''c.js'']"
  let ?flat = "[lit ''a.js'', lit ''b.js'', lit ''b.js'', lit ''c.js'']"
  let ?rs' = "[(suffix_pattern (lit ''.js'') True)\<lparr>lastIndex := 4\<rparr>]"
  let ?t = "ex_global_whitelist\<lparr>resourceHints := Some (map (link ex_lib (options ex_global_whitelist)
              (publicPath ex_compilation)) [lit ''a.js'', lit ''c.js''])\<rparr>"
  let ?h1 = "ex_abc_heap @ [[], [lit ''a.js'', lit ''b.js''], ?flat]"
  let ?h' = "?h1 @ [?abc, [lit ''a.js'', lit ''c.js''], [lit ''a.js'', lit ''c.js'']]"
  let ?h2 = "?h' @ [[], [lit ''a.js'', lit ''b.js''], ?flat]"
  have o: "options ?t = options ex_global_whitelist"
    by simp
  have c: "htmlChunks ex_lib (options ex_global_whitelist) ex_compilation ex_data hh =
      Inr [\<lparr>files = 0\<rparr>, \<lparr>files = 1\<rparr>]" for hh
    by (simp add: ex_htmlChunks ex_global_whitelist_def ex_options_def)
  have a1: "allFiles [\<lparr>files = 0\<rparr>, \<lparr>files = 1::nat\<rparr>] (length ex_abc_heap) (ex_abc_heap @ [[]]) =
      (4, ?h1)"
    by (simp add: ex_abc_heap_def array_concat_def alloc_def)
  have a2: "allFiles [\<lparr>files = 0\<rparr>, \<lparr>files = 1::nat\<rparr>] (length ?h') (?h' @ [[]]) = (10, ?h2)"
    by (simp add: ex_abc_heap_def array_concat_def alloc_def)
  have u1: "new_Set (?h1 ! 4) = ?abc"
    by (simp add: ex_abc_heap_def new_Set_def Set_add_def lit_def)
  have u2: "new_Set (?h2 ! 10) = ?abc"
    by (simp add: ex_abc_heap_def new_Set_def Set_add_def lit_def)
  have w1: "filter_files (whitelisted (options ex_global_whitelist)) ?abc
      ex_global_whitelist_patterns = ([lit ''a.js'', lit ''c.js''], ?rs')"
    by (simp add: whitelisted_def ex_global_whitelist_def ex_options_def
        ex_global_whitelist_patterns_def RegExp_test_def suffix_pattern_def ends_with_def lit_def)
  have w2: "filter_files (whitelisted (options ex_global_whitelist)) ?abc ?rs' =
      ([lit ''b.js''], ex_global_whitelist_patterns)"
    by (simp add: whitelisted_def ex_global_whitelist_def ex_options_def
        ex_global_whitelist_patterns_def RegExp_test_def suffix_pattern_def ends_with_def lit_def)
  have b: "filter_files (not_blacklisted (options ex_global_whitelist)) xs s = (xs, s)" for xs s
  proof -
    have "not_blacklisted (options ex_global_whitelist) = (\<lambda>file rs. (True, rs))"
      by (simp add: not_blacklisted_def ex_global_whitelist_def ex_options_def fun_eq_iff)
    then show ?thesis by (simp add: filter_files_all)
  qed
  have s: "sort [lit ''a.js'', lit ''c.js''] = [lit ''a.js'', lit ''c.js'']"
    "sort [lit ''b.js''] = [lit ''b.js'']"
    by (simp_all add: lit_def)
  have g1: "generateLinks ex_lib ex_global_whitelist ex_compilation ex_data ex_abc_heap
       ex_global_whitelist_patterns = Inr (?t, ex_data, ?h', ?rs')"
    using generateLinks_unfold [OF c a1, unfolded u1, OF w1 b, unfolded s] by simp
  have g2: "generateLinks ex_lib ?t ex_compilation ex_data ?h' ?rs' =
      Inr (?t\<lparr>resourceHints := Some (map (link ex_lib (options ex_global_whitelist)
              (publicPath ex_compilation)) [lit ''b.js''])\<rparr>, ex_data,
           ?h2 @ [?abc, [lit ''b.js''], [lit ''b.js'']], ex_global_whitelist_patterns)"
    using generateLinks_unfold [of ex_lib ?t, unfolded o, OF c a2, unfolded u2, OF w2 b,
        unfolded s]
    by simp
  show ?thesis
  proof (intro exI conjI)
    show "generateLinks ex_lib ex_global_whitelist ex_compilation ex_data ex_abc_heap
       ex_global_whitelist_patterns = Inr (?t, ex_data, ?h', ?rs')"
      by (fact g1)
    show "generateLinks ex_lib ?t ex_compilation ex_data ?h' ?rs' =
      Inr (?t\<lparr>resourceHints := Some (map (link ex_lib (options ex_global_whitelist)
              (publicPath ex_compilation)) [lit ''b.js''])\<rparr>, ex_data,
           ?h2 @ [?abc, [lit ''b.js''], [lit ''b.js'']], ex_global_whitelist_patterns)"
      by (fact g2)
    show "options ?t = options ex_global_whitelist"
      by simp
    show "ex_data = ex_data" ..
    show "take (length ex_abc_heap) ?h' = ex_abc_heap"
      by simp
    show "map lastIndex ?rs' = [4]"
      by simp
    show "map_option (map (\<lambda>d. attribute d ''href'')) (resourceHints ?t) =
       Some [Some (JStr (lit ''/static/a.js'')), Some (JStr (lit ''/static/c.js''))]"
      by (simp add: attribute_link attributes_def Let_def publicPath_def ex_compilation_def
          lit_def)
    show "map_option (map (\<lambda>d. attribute d ''href''))
        (resourceHints (?t\<lparr>resourceHints := Some (map (link ex_lib (options ex_global_whitelist)
              (publicPath ex_compilation)) [lit ''b.js''])\<rparr>)) =
       Some [Some (JStr (lit ''/static/b.js''))]"
      by (simp add: attribute_link attributes_def Let_def publicPath_def ex_compilation_def
          lit_def)
  qed
qed



text \<open>
  C10. appendHash returns an empty url as it is. Otherwise it appends the hash after
  a question mark when the url has none, and after an ampersand when it has one; in
  that case the question marks of the result are those of the url and of the hash,
  so the separator never is a second question mark.
\<close>

theorem appendHash_separator:
  "(url = [] \<longrightarrow> appendHash url hash = url) \<and>
   (url \<noteq> [] \<and> 0x3F \<notin> set url \<longrightarrow> appendHash url hash = url @ lit ''?'' @ hash) \<and>
   (0x3F \<in> set url \<longrightarrow>
      appendHash url hash = url @ lit ''&'' @ hash \<and>
      count_list (appendHash url hash) 0x3F = count_list url 0x3F + count_list hash 0x3F)"
proof -
  have "count_list (lit ''&'') (0x3F :: 16 word) = 0"
    by (simp add: lit_def)
  then show ?thesis
    by (auto simp: appendHash_def)
qed

theorem appendHash_separator_witness:
  "appendHash [] (lit ''a1b2'') = [] \<and>
   appendHash (lit ''/static/main.js'') (lit ''a1b2'') = lit ''/static/main.js?a1b2'' \<and>
   appendHash (lit ''/static/main.js?v=1'') (lit ''a1b2'') = lit ''/static/main.js?v=1&a1b2'' \<and>
   count_list (appendHash (lit ''/static/main.js?v=1'') (lit ''a1b2'')) 0x3F = 1"
  using appendHash_separator [of "[]" "lit ''a1b2''"]
    appendHash_separator [of "lit ''/static/main.js''" "lit ''a1b2''"]
    appendHash_separator [of "lit ''/static/main.js?v=1''" "lit ''a1b2''"]
  by (simp add: lit_def)

end
